theory Spec2Isabelle
  imports Main "HOL-Library.Log_Nat"
begin

section \<open>The relational store\<close>

text \<open>
  The enums and tables of \<^verbatim>\<open>prisma/migrations/20250907200523_init/migration.sql\<close> and of
  the later migration that moves the company reference onto \<^verbatim>\<open>Employer\<close>. A table is the
  list of its rows; a \<^verbatim>\<open>SERIAL\<close> primary key is drawn from a counter kept in the store
  (the model spends no key on a write that is refused). Timestamps are milliseconds.
  Rows carry the columns that the handlers below read or write. Of the audit columns only
  those of \<^verbatim>\<open>Application\<close> are kept. Its \<^verbatim>\<open>updatedAt\<close> has no default in the table and no
  \<^verbatim>\<open>create\<close> names it: the ORM maintains it, setting it at the insert and again at every
  update of the row.
\<close>

datatype ApplicationStatus =
  PENDING | REVIEWING | SHORTLISTED | INTERVIEWED | ACCEPTED | REJECTED | WITHDRAWN

datatype JobStatus = ACTIVE | COMPLETED | PAUSED

datatype FieldType =
  TEXT | NUMBER | EMAIL | PHONE | LOCATION | RESUME_URL | TEXTAREA | SELECT
  | MULTISELECT | CHECKBOX | DATE | YEARS_OF_EXPERIENCE

datatype CompanyRole = ADMIN | HR_MANAGER | RECRUITER | HIRING_MANAGER

datatype CompanySize =
  STARTUP_1_10 | SMALL_11_50 | MEDIUM_51_200 | LARGE_201_1000 | ENTERPRISE_1000_PLUS

type_synonym timestamp = int

record Company =
  c_id :: int
  c_name :: string
  c_description :: "string option"
  c_website :: "string option"
  c_profilePicture :: "string option"
  c_size :: "CompanySize option"
  c_industry :: "string option"
  c_location :: "string option"
  c_foundedYear :: "int option"
  c_isActive :: bool

record Employer =
  e_id :: int
  e_userId :: int
  e_companyId :: "int option"
  e_department :: "string option"
  e_isActive :: bool
  e_jobTitle :: "string option"
  e_joinedAt :: "timestamp option"
  e_role :: CompanyRole

record Job =
  j_id :: int
  j_companyId :: int
  j_employerId :: int
  j_title :: string
  j_status :: JobStatus

record JobFormField =
  f_id :: int
  f_jobId :: int
  f_label :: string
  f_fieldType :: FieldType
  f_isRequired :: bool
  f_isDefault :: bool
  f_order :: int
  f_options :: "string list"

record Application =
  a_id :: int
  a_jobId :: int
  a_seekerId :: int
  a_status :: ApplicationStatus
  a_appliedAt :: timestamp
  a_updatedAt :: timestamp

record ApplicationResponse =
  r_id :: int
  r_applicationId :: int
  r_fieldId :: int
  r_answer :: string

record store =
  companies :: "Company list"
  employers :: "Employer list"
  jobs :: "Job list"
  formFields :: "JobFormField list"
  applications :: "Application list"
  responses :: "ApplicationResponse list"
  companySeq :: int
  fieldSeq :: int
  applicationSeq :: int
  responseSeq :: int

section \<open>Requests and replies\<close>

text \<open>
  \<^verbatim>\<open>req.user\<close> as the authentication middleware leaves it: the role-profile ids are
  optional properties. A reply is the HTTP status, the \<^verbatim>\<open>message\<close> of the JSON body and
  its \<^verbatim>\<open>data\<close> (or \<^verbatim>\<open>suggestion\<close>) payload when there is one.
\<close>

record reqUser =
  u_id :: int
  u_jobSeekerId :: "int option"
  u_employerId :: "int option"
  u_companyId :: "int option"

record 'a reply =
  statusCode :: nat
  messageText :: string
  payload :: "'a option"

definition respond :: "nat \<Rightarrow> string \<Rightarrow> 'a reply" where
  "respond code msg = \<lparr>statusCode = code, messageText = msg, payload = None\<rparr>"

definition respondWith :: "nat \<Rightarrow> string \<Rightarrow> 'a \<Rightarrow> 'a reply" where
  "respondWith code msg d = \<lparr>statusCode = code, messageText = msg, payload = Some d\<rparr>"

text \<open>
  JavaScript's \<^verbatim>\<open>!x\<close> on an optional number: true for \<^verbatim>\<open>undefined\<close>, for \<^verbatim>\<open>NaN\<close>
  (what \<^verbatim>\<open>parseInt\<close> gives on a non-numeric string, here \<open>None\<close> as well) and for 0.
\<close>

fun falsyNum :: "int option \<Rightarrow> bool" where
  "falsyNum None = True"
| "falsyNum (Some n) = (n = 0)"

text \<open>
  Every key column is a 32-bit \<^verbatim>\<open>INTEGER\<close>. A query that is given NaN, or a number outside
  that range, for such a column does not run: the ORM call throws, and the handler's
  \<^verbatim>\<open>catch\<close> answers 500.
\<close>

definition inInt4 :: "int \<Rightarrow> bool" where
  "inInt4 n = (- 2147483648 \<le> n \<and> n \<le> 2147483647)"

fun validKey :: "int option \<Rightarrow> bool" where
  "validKey None = False"
| "validKey (Some n) = inInt4 n"

section \<open>Company directory: selectExistingCompany\<close>

text \<open>
  \<^verbatim>\<open>company.controller.ts\<close>, \<^verbatim>\<open>selectExistingCompany\<close>. The guard against an employer
  that already has a company is commented out in the source, so it is no branch here.
  \<^verbatim>\<open>prisma.company.findUnique\<close> throws on an id outside the key range, the employer
  lookup that follows it likewise, and \<^verbatim>\<open>prisma.employer.update\<close> throws when no row has
  the id; the handler's \<^verbatim>\<open>catch\<close> answers 500 each time.
\<close>

definition setEmployerCompany :: "int \<Rightarrow> int \<Rightarrow> timestamp \<Rightarrow> Employer \<Rightarrow> Employer" where
  "setEmployerCompany eid cid now e =
     (if e_id e = eid then e\<lparr>e_companyId := Some cid, e_joinedAt := Some now\<rparr> else e)"

definition selectExistingCompany ::
  "store \<Rightarrow> timestamp \<Rightarrow> reqUser \<Rightarrow> int option \<Rightarrow> (Company \<times> Employer) reply \<times> store" where
  "selectExistingCompany db now user companyId =
     (if falsyNum companyId then (respond 400 ''Valid company ID is required'', db)
      else if falsyNum (u_employerId user) then (respond 401 ''Employer profile required'', db)
      else if \<not> validKey companyId then (respond 500 ''Internal server error'', db)
      else
        (case find (\<lambda>c. c_id c = the companyId \<and> c_isActive c) (companies db) of
           None \<Rightarrow> (respond 404 ''Company not found or inactive'', db)
         | Some company \<Rightarrow>
            if \<not> validKey (u_employerId user)
            then (respond 500 ''Internal server error'', db)
            else
            (case find (\<lambda>e. e_id e = the (u_employerId user)) (employers db) of
               None \<Rightarrow> (respond 500 ''Internal server error'', db)
             | Some e \<Rightarrow>
                (respondWith 200 (''Successfully joined '' @ c_name company)
                   (company,
                    setEmployerCompany (e_id e) (the companyId) now e),
                 db\<lparr>employers :=
                      map (setEmployerCompany (the (u_employerId user)) (the companyId) now)
                        (employers db)\<rparr>))))"

section \<open>Application workflow\<close>

text \<open>
  \<^verbatim>\<open>JobSeekerController\<close> (seeker routes) and \<^verbatim>\<open>ApplicationHistoryController\<close>
  (application-history routes) each have a \<^verbatim>\<open>withdrawApplication\<close>. The path parameter
  is the result of \<^verbatim>\<open>parseInt\<close>: \<open>None\<close> for NaN. \<^verbatim>\<open>findFirst\<close> is \<open>find\<close> on the
  table and throws when the id or the seeker id it is given is no valid key;
  \<^verbatim>\<open>update\<close> with \<^verbatim>\<open>where: { id }\<close> rewrites the row with that primary key, and with it
  the row's \<^verbatim>\<open>updatedAt\<close>.
\<close>

definition seekerProfileMissing :: string where
  "seekerProfileMissing = ''Job seeker profile not found. Please complete your profile first.''"

definition setStatus ::
  "int \<Rightarrow> ApplicationStatus \<Rightarrow> timestamp \<Rightarrow> Application \<Rightarrow> Application" where
  "setStatus aid s now a =
     (if a_id a = aid then a\<lparr>a_status := s, a_updatedAt := now\<rparr> else a)"

definition JobSeekerController_withdrawApplication ::
  "store \<Rightarrow> timestamp \<Rightarrow> reqUser \<Rightarrow> int option \<Rightarrow> Application reply \<times> store" where
  "JobSeekerController_withdrawApplication db now user applicationId =
     (if falsyNum (u_jobSeekerId user) then (respond 400 seekerProfileMissing, db)
      else if \<not> validKey applicationId \<or> \<not> validKey (u_jobSeekerId user)
      then (respond 500 ''Failed to withdraw application'', db)
      else
        (case find (\<lambda>a. a_id a = the applicationId
                        \<and> a_seekerId a = the (u_jobSeekerId user)
                        \<and> a_status a \<in> set [PENDING, REVIEWING]) (applications db) of
           None \<Rightarrow> (respond 404 ''Application not found or cannot be withdrawn'', db)
         | Some application \<Rightarrow>
             (respondWith 200 ''Application withdrawn successfully''
                (application\<lparr>a_status := WITHDRAWN, a_updatedAt := now\<rparr>),
              db\<lparr>applications :=
                   map (setStatus (the applicationId) WITHDRAWN now) (applications db)\<rparr>)))"

text \<open>
  The history controller filters on \<^verbatim>\<open>seekerId: req.user!.jobSeekerId!\<close>; a property that
  is \<^verbatim>\<open>undefined\<close> is no filter for the ORM. Its route runs behind the middleware that
  requires the seeker profile, so the id is there on every request that reaches it.
\<close>

definition ApplicationHistoryController_withdrawApplication ::
  "store \<Rightarrow> timestamp \<Rightarrow> reqUser \<Rightarrow> int option \<Rightarrow> Application reply \<times> store" where
  "ApplicationHistoryController_withdrawApplication db now user applicationId =
     (if \<not> validKey applicationId
         \<or> (case u_jobSeekerId user of None \<Rightarrow> False | Some s \<Rightarrow> \<not> inInt4 s)
      then (respond 500 ''Internal server error'', db)
      else
        (case find (\<lambda>a. a_id a = the applicationId
                        \<and> (case u_jobSeekerId user of
                              None \<Rightarrow> True
                            | Some s \<Rightarrow> a_seekerId a = s))
                (applications db) of
           None \<Rightarrow> (respond 404 ''Application not found or access denied'', db)
         | Some existingApplication \<Rightarrow>
             if a_status existingApplication = WITHDRAWN
             then (respond 400 ''Application is already withdrawn'', db)
             else if a_status existingApplication = ACCEPTED
                     \<or> a_status existingApplication = REJECTED
             then (respond 400 ''Cannot withdraw application that has been processed'', db)
             else (respondWith 200 ''Application withdrawn successfully''
                     (existingApplication\<lparr>a_status := WITHDRAWN, a_updatedAt := now\<rparr>),
                   db\<lparr>applications :=
                        map (setStatus (the applicationId) WITHDRAWN now)
                          (applications db)\<rparr>)))"

text \<open>
  \<^verbatim>\<open>job.controller.ts\<close>, \<^verbatim>\<open>updateApplicationStatus\<close>: the body's \<^verbatim>\<open>status\<close> is a string
  checked against the allow-list; the row is then updated by id, with no look at its
  present status. \<^verbatim>\<open>update\<close> throws when no row has the id (500).
\<close>

definition allowedStatuses :: "string list" where
  "allowedStatuses =
     [''PENDING'', ''REVIEWING'', ''SHORTLISTED'', ''INTERVIEWED'', ''ACCEPTED'', ''REJECTED'']"

definition statusOfString :: "string \<Rightarrow> ApplicationStatus option" where
  "statusOfString s =
     (if s = ''PENDING'' then Some PENDING
      else if s = ''REVIEWING'' then Some REVIEWING
      else if s = ''SHORTLISTED'' then Some SHORTLISTED
      else if s = ''INTERVIEWED'' then Some INTERVIEWED
      else if s = ''ACCEPTED'' then Some ACCEPTED
      else if s = ''REJECTED'' then Some REJECTED
      else if s = ''WITHDRAWN'' then Some WITHDRAWN
      else None)"

definition updateApplicationStatus ::
  "store \<Rightarrow> timestamp \<Rightarrow> int \<Rightarrow> string option \<Rightarrow> Application reply \<times> store" where
  "updateApplicationStatus db now applicationId status =
     (case status of
        None \<Rightarrow> (respond 400 ''Valid status is required'', db)
      | Some s \<Rightarrow>
          if s = [] \<or> s \<notin> set allowedStatuses
          then (respond 400 ''Valid status is required'', db)
          else
            (case (statusOfString s, find (\<lambda>a. a_id a = applicationId) (applications db)) of
               (Some st, Some a) \<Rightarrow>
                 (respondWith 200 (''Application status updated to '' @ s)
                    (a\<lparr>a_status := st, a_updatedAt := now\<rparr>),
                  db\<lparr>applications :=
                       map (\<lambda>r. if a_id r = applicationId
                                 then r\<lparr>a_status := st, a_updatedAt := now\<rparr> else r)
                         (applications db)\<rparr>)
             | _ \<Rightarrow> (respond 500 ''Internal server error'', db)))"

text \<open>
  \<^verbatim>\<open>JobSeekerController.applyForJob\<close>. The body is taken after the \<^verbatim>\<open>zod\<close> schema:
  \<open>None\<close> when \<^verbatim>\<open>safeParse\<close> fails, otherwise the list of (fieldId, answer) entries.
  The nested \<^verbatim>\<open>create\<close> is one atomic write; it throws, and writes nothing, when a unique
  index (\<^verbatim>\<open>Application_jobId_seekerId_key\<close>, \<^verbatim>\<open>ApplicationResponse_applicationId_fieldId_key\<close>)
  or the foreign key of \<^verbatim>\<open>fieldId\<close> would be violated; the \<^verbatim>\<open>catch\<close> answers 500.
\<close>

record responseInput =
  ri_fieldId :: int
  ri_answer :: string

definition missingMessage :: "string \<Rightarrow> string" where
  "missingMessage label = ''Required field '' @ [CHR 0x22] @ label @ [CHR 0x22] @ '' is missing''"

fun newResponses :: "int \<Rightarrow> int \<Rightarrow> responseInput list \<Rightarrow> ApplicationResponse list" where
  "newResponses aid rid [] = []"
| "newResponses aid rid (r # rs) =
     \<lparr>r_id = rid, r_applicationId = aid, r_fieldId = ri_fieldId r, r_answer = ri_answer r\<rparr>
       # newResponses aid (rid + 1) rs"

definition applicationCreateOk :: "store \<Rightarrow> int \<Rightarrow> int \<Rightarrow> responseInput list \<Rightarrow> bool" where
  "applicationCreateOk db jobId seekerId rs =
     (\<not> (\<exists>a\<in>set (applications db). a_jobId a = jobId \<and> a_seekerId a = seekerId)
      \<and> distinct (map ri_fieldId rs)
      \<and> (\<forall>r\<in>set rs. \<exists>f\<in>set (formFields db). f_id f = ri_fieldId r))"

definition applyForJob ::
  "store \<Rightarrow> timestamp \<Rightarrow> reqUser \<Rightarrow> int \<Rightarrow> responseInput list option
     \<Rightarrow> (Application \<times> ApplicationResponse list) reply \<times> store" where
  "applyForJob db now user jobId body =
     (if falsyNum (u_jobSeekerId user) then (respond 400 seekerProfileMissing, db)
      else case body of
        None \<Rightarrow> (respond 400 ''Invalid application data'', db)
      | Some rs \<Rightarrow>
         (case find (\<lambda>j. j_id j = jobId \<and> j_status j = ACTIVE) (jobs db) of
            None \<Rightarrow> (respond 404 ''Job not found or no longer active'', db)
          | Some job \<Rightarrow>
             (case find (\<lambda>a. a_jobId a = jobId \<and> a_seekerId a = the (u_jobSeekerId user))
                     (applications db) of
                Some existingApplication \<Rightarrow>
                  (respond 400 ''You have already applied for this job'', db)
              | None \<Rightarrow>
                 (case find (\<lambda>f. f_id f \<notin> set (map ri_fieldId rs))
                         (filter f_isRequired
                            (filter (\<lambda>f. f_jobId f = jobId) (formFields db))) of
                    Some field \<Rightarrow> (respond 400 (missingMessage (f_label field)), db)
                  | None \<Rightarrow>
                     if applicationCreateOk db jobId (the (u_jobSeekerId user)) rs
                     then
                       (let application =
                              \<lparr>a_id = applicationSeq db, a_jobId = jobId,
                               a_seekerId = the (u_jobSeekerId user), a_status = PENDING,
                               a_appliedAt = now, a_updatedAt = now\<rparr>;
                            created = newResponses (applicationSeq db) (responseSeq db) rs
                        in (respondWith 201 ''Application submitted successfully''
                              (application, created),
                            db\<lparr>applications := applications db @ [application],
                               responses := responses db @ created,
                               applicationSeq := applicationSeq db + 1,
                               responseSeq := responseSeq db + int (length rs)\<rparr>))
                     else (respond 500 ''Failed to submit application'', db)))))"

section \<open>Job form builder\<close>

text \<open>
  \<^verbatim>\<open>job.controller.ts\<close>: \<^verbatim>\<open>createJobForm\<close>, \<^verbatim>\<open>updateJobForm\<close>, \<^verbatim>\<open>deleteJobFormField\<close>.
  The body's fields are untyped (\<^verbatim>\<open>field: any\<close>). An absent property is \<open>None\<close>; the
  \<^verbatim>\<open>isRequired\<close> property is kept as a JavaScript value, since the source applies
  \<^verbatim>\<open>||\<close> to it. The ORM accepts a boolean for a boolean column, treats \<^verbatim>\<open>undefined\<close> as
  "not given" and throws on anything else.
\<close>

datatype jsval = JUndefined | JNull | JBool bool | JNum int | JStr string

fun truthy :: "jsval \<Rightarrow> bool" where
  "truthy JUndefined = False"
| "truthy JNull = False"
| "truthy (JBool b) = b"
| "truthy (JNum n) = (n \<noteq> 0)"
| "truthy (JStr s) = (s \<noteq> [])"

definition jsOr :: "jsval \<Rightarrow> jsval \<Rightarrow> jsval" where
  "jsOr a b = (if truthy a then a else b)"

datatype 'a arg = Omitted | Given 'a | Invalid

fun boolArg :: "jsval \<Rightarrow> bool arg" where
  "boolArg JUndefined = Omitted"
| "boolArg (JBool b) = Given b"
| "boolArg v = Invalid"

definition numOr :: "int option \<Rightarrow> int \<Rightarrow> int" where
  "numOr x d = (if falsyNum x then d else the x)"

record fieldInput =
  fi_id :: "int option"
  fi_label :: "string option"
  fi_fieldType :: "FieldType option"
  fi_isRequired :: jsval
  fi_order :: "int option"
  fi_options :: "string list option"

text \<open>
  Deleting form fields cascades to the responses that reference them
  (\<^verbatim>\<open>ApplicationResponse_fieldId_fkey ... ON DELETE CASCADE\<close>).
\<close>

definition deleteFields :: "(JobFormField \<Rightarrow> bool) \<Rightarrow> store \<Rightarrow> store" where
  "deleteFields P db =
     db\<lparr>formFields := filter (\<lambda>f. \<not> P f) (formFields db),
        responses := filter (\<lambda>r. r_fieldId r \<notin> set (map f_id (filter P (formFields db))))
                       (responses db)\<rparr>"

text \<open>
  One \<^verbatim>\<open>prisma.jobFormField.create\<close> with \<^verbatim>\<open>isRequired: field.isRequired || true\<close> and
  \<^verbatim>\<open>isDefault: false\<close>; \<open>None\<close> where the call throws (label or type missing, a
  non-boolean \<^verbatim>\<open>isRequired\<close>, no job with the id).
\<close>

definition newFieldRow :: "int \<Rightarrow> int \<Rightarrow> int \<Rightarrow> fieldInput \<Rightarrow> JobFormField option" where
  "newFieldRow jobId fid ord field =
     (case (fi_label field, fi_fieldType field,
            boolArg (jsOr (fi_isRequired field) (JBool True))) of
        (Some l, Some t, Given b) \<Rightarrow>
          Some \<lparr>f_id = fid, f_jobId = jobId, f_label = l, f_fieldType = t, f_isRequired = b,
                f_isDefault = False, f_order = ord,
                f_options = (case fi_options field of Some os \<Rightarrow> os | None \<Rightarrow> [])\<rparr>
      | (Some l, Some t, Omitted) \<Rightarrow>
          Some \<lparr>f_id = fid, f_jobId = jobId, f_label = l, f_fieldType = t, f_isRequired = True,
                f_isDefault = False, f_order = ord,
                f_options = (case fi_options field of Some os \<Rightarrow> os | None \<Rightarrow> [])\<rparr>
      | _ \<Rightarrow> None)"

definition createOne :: "int \<Rightarrow> int \<Rightarrow> fieldInput \<Rightarrow> store \<Rightarrow> JobFormField option \<times> store" where
  "createOne jobId ord field db =
     (if \<not> (\<exists>j\<in>set (jobs db). j_id j = jobId) then (None, db)
      else case newFieldRow jobId (fieldSeq db) ord field of
        None \<Rightarrow> (None, db)
      | Some row \<Rightarrow>
          (Some row, db\<lparr>formFields := formFields db @ [row], fieldSeq := fieldSeq db + 1\<rparr>))"

text \<open>
  \<^verbatim>\<open>Promise.all(fields.map(...))\<close>: every call is started, a call that throws does not
  stop the others, and the handler answers 500 if any threw. The writes are taken in the
  order of the array.
\<close>

fun createAll ::
  "int \<Rightarrow> nat \<Rightarrow> fieldInput list \<Rightarrow> store \<Rightarrow> JobFormField option list \<times> store" where
  "createAll jobId index [] db = ([], db)"
| "createAll jobId index (field # rest) db =
     (case createOne jobId (numOr (fi_order field) (int index + 100)) field db of
        (r, db1) \<Rightarrow>
          (case createAll jobId (Suc index) rest db1 of
             (rs, db2) \<Rightarrow> (r # rs, db2)))"

definition createJobForm ::
  "store \<Rightarrow> int \<Rightarrow> fieldInput list option \<Rightarrow> JobFormField list reply \<times> store" where
  "createJobForm db jobId fieldList =
     (case fieldList of
        None \<Rightarrow> (respond 400 ''Fields array is required'', db)
      | Some fs \<Rightarrow>
          (case createAll jobId 0 fs
                  (deleteFields (\<lambda>f. f_jobId f = jobId \<and> \<not> f_isDefault f) db) of
             (rs, db2) \<Rightarrow>
               if None \<in> set rs then (respond 500 ''Internal server error'', db2)
               else (respondWith 201 ''Job form fields created successfully''
                       (map the rs), db2)))"

definition applyFieldUpdate :: "fieldInput \<Rightarrow> JobFormField \<Rightarrow> JobFormField" where
  "applyFieldUpdate field row =
     row\<lparr>f_label := (case fi_label field of Some l \<Rightarrow> l | None \<Rightarrow> f_label row),
         f_fieldType := (case fi_fieldType field of Some t \<Rightarrow> t | None \<Rightarrow> f_fieldType row),
         f_isRequired := (case boolArg (fi_isRequired field) of
                            Given b \<Rightarrow> b | _ \<Rightarrow> f_isRequired row),
         f_order := (case fi_order field of Some n \<Rightarrow> n | None \<Rightarrow> f_order row),
         f_options := (case fi_options field of Some os \<Rightarrow> os | None \<Rightarrow> [])\<rparr>"

definition updateOne :: "int \<Rightarrow> fieldInput \<Rightarrow> store \<Rightarrow> JobFormField option \<times> store" where
  "updateOne jobId field db =
     (if \<not> falsyNum (fi_id field)
      then
        (if boolArg (fi_isRequired field) = Invalid then (None, db)
         else case find (\<lambda>r. f_id r = the (fi_id field)) (formFields db) of
            None \<Rightarrow> (None, db)
          | Some row \<Rightarrow>
              (Some (applyFieldUpdate field row),
               db\<lparr>formFields :=
                    map (\<lambda>r. if f_id r = the (fi_id field) then applyFieldUpdate field r else r)
                      (formFields db)\<rparr>))
      else createOne jobId (numOr (fi_order field) 0) field db)"

fun updateAll ::
  "int \<Rightarrow> fieldInput list \<Rightarrow> store \<Rightarrow> JobFormField option list \<times> store" where
  "updateAll jobId [] db = ([], db)"
| "updateAll jobId (field # rest) db =
     (case updateOne jobId field db of
        (r, db1) \<Rightarrow>
          (case updateAll jobId rest db1 of
             (rs, db2) \<Rightarrow> (r # rs, db2)))"

definition updateJobForm ::
  "store \<Rightarrow> int \<Rightarrow> fieldInput list option \<Rightarrow> JobFormField list reply \<times> store" where
  "updateJobForm db jobId fieldList =
     (case fieldList of
        None \<Rightarrow> (respond 400 ''Fields array is required'', db)
      | Some fs \<Rightarrow>
          (case updateAll jobId fs db of
             (rs, db2) \<Rightarrow>
               if None \<in> set rs then (respond 500 ''Internal server error'', db2)
               else (respondWith 200 ''Job form updated successfully'' (map the rs), db2)))"

definition deleteJobFormField :: "store \<Rightarrow> int \<Rightarrow> unit reply \<times> store" where
  "deleteJobFormField db fieldId =
     (case find (\<lambda>f. f_id f = fieldId) (formFields db) of
        None \<Rightarrow> (respond 404 ''Form field not found'', db)
      | Some field \<Rightarrow>
          if f_isDefault field then (respond 400 ''Cannot delete default form fields'', db)
          else (respond 200 ''Form field deleted successfully'',
                deleteFields (\<lambda>f. f_id f = fieldId) db))"

section \<open>Company directory: createCompany\<close>


definition isSpace :: "char \<Rightarrow> bool" where
  "isSpace c = (c \<in> set [CHR 0x20, CHR 0x09, CHR 0x0A, CHR 0x0B, CHR 0x0C, CHR 0x0D])"

definition trim :: "string \<Rightarrow> string" where
  "trim s = rev (dropWhile isSpace (rev (dropWhile isSpace s)))"

definition lowerChar :: "char \<Rightarrow> char" where
  "lowerChar c =
     (case map_of (zip ''ABCDEFGHIJKLMNOPQRSTUVWXYZ'' ''abcdefghijklmnopqrstuvwxyz'') c of
        Some l \<Rightarrow> l
      | None \<Rightarrow> c)"

text \<open>
  The ORM runs \<^verbatim>\<open>{ equals: x, mode: 'insensitive' }\<close> as the database's \<^verbatim>\<open>ILIKE\<close> with
  \<^verbatim>\<open>x\<close> as the pattern, unescaped: \<^verbatim>\<open>%\<close> stands for any run of characters, \<^verbatim>\<open>_\<close> for any
  one character, and a backslash takes the next character literally. \<open>matchText\<close>
  follows the database's matcher on the lower-cased text and pattern: it walks both,
  after a \<^verbatim>\<open>%\<close> it skips further wildcards and tries every position of the text where the
  next literal character occurs, and it raises an error when the pattern ends in a lone
  backslash at a point the walk reaches. Only \<open>LikeTrue\<close> is a match.
\<close>

datatype likeResult = LikeTrue | LikeFalse | LikeAbort | LikeError

fun skipWild :: "string \<Rightarrow> string \<Rightarrow> (string \<times> string) option" where
  "skipWild t [] = Some (t, [])"
| "skipWild t (q # qs) =
     (if q = CHR ''%'' then skipWild t qs
      else if q = CHR ''_'' then (case t of [] \<Rightarrow> None | c # cs \<Rightarrow> skipWild cs qs)
      else Some (t, q # qs))"

function (sequential) matchText :: "string \<Rightarrow> string \<Rightarrow> likeResult"
  and scanText :: "char \<Rightarrow> string \<Rightarrow> string \<Rightarrow> likeResult" where
  "matchText [] p = (if dropWhile (\<lambda>q. q = CHR ''%'') p = [] then LikeTrue else LikeAbort)"
| "matchText (c # cs) [] = LikeFalse"
| "matchText (c # cs) (q # qs) =
     (if q = CHR 0x5C
      then (case qs of
              [] \<Rightarrow> LikeError
            | r # rs \<Rightarrow> if r \<noteq> c then LikeFalse else matchText cs rs)
      else if q = CHR ''%''
      then (case skipWild (c # cs) qs of
              None \<Rightarrow> LikeAbort
            | Some (t', p') \<Rightarrow>
                (case p' of
                   [] \<Rightarrow> LikeTrue
                 | f # fs \<Rightarrow>
                     if f = CHR 0x5C
                     then (case fs of [] \<Rightarrow> LikeError | g # gs \<Rightarrow> scanText g t' p')
                     else scanText f t' p'))
      else if q = CHR ''_'' then matchText cs qs
      else if q \<noteq> c then LikeFalse
      else matchText cs qs)"
| "scanText firstpat [] p = LikeAbort"
| "scanText firstpat (c # cs) p =
     (if c = firstpat
      then (case matchText (c # cs) p of
              LikeFalse \<Rightarrow> scanText firstpat cs p
            | m \<Rightarrow> m)
      else scanText firstpat cs p)"
  by pat_completeness auto
termination
proof -
  have skipWild_length: "length p' \<le> length p \<and> length t' \<le> length t"
    if "skipWild t p = Some (t', p')" for t p t' p'
    using that
    by (induction t p arbitrary: t' p' rule: skipWild.induct)
       (fastforce split: if_splits list.splits)+
  show ?thesis
    by (relation "inv_image (less_than <*lex*> less_than <*lex*> less_than)
          (\<lambda>x. case x of Inl (t, p) \<Rightarrow> (length p, 0::nat, length t)
                        | Inr (f, t, p) \<Rightarrow> (length p, 1, length t))")
       (auto dest: skipWild_length)
qed

definition ilike :: "string \<Rightarrow> string \<Rightarrow> likeResult" where
  "ilike text pattern = matchText (map lowerChar text) (map lowerChar pattern)"

text \<open>
  \<^verbatim>\<open>prisma.company.findFirst\<close> with the name pattern and \<^verbatim>\<open>isActive: true\<close>: the rows are
  read in table order, the pattern is tried on the active rows, and the first match ends
  the read; a matcher error makes the query, and so the ORM call, fail.
\<close>

datatype nameLookupResult = NameFound Company | NameNotFound | NameQueryError

fun nameLookup :: "string \<Rightarrow> Company list \<Rightarrow> nameLookupResult" where
  "nameLookup pattern [] = NameNotFound"
| "nameLookup pattern (c # cs) =
     (if \<not> c_isActive c then nameLookup pattern cs
      else case ilike (c_name c) pattern of
        LikeTrue \<Rightarrow> NameFound c
      | LikeError \<Rightarrow> NameQueryError
      | _ \<Rightarrow> nameLookup pattern cs)"


text \<open>
  The body after \<^verbatim>\<open>createCompanySchema.safeParse\<close> (\<open>None\<close> when it fails; the schema's
  bounds are on the name as submitted, before it is trimmed). The handler first looks the
  caller's employer row up by id, which throws on an id that is no valid key. The company
  row and the employer update are one transaction: when the unique index on the name
  (\<^verbatim>\<open>Company_name_key\<close>) refuses the row, or no employer row has the caller's id, nothing
  is written and the \<^verbatim>\<open>catch\<close> answers 500.
\<close>

record companyInput =
  ci_name :: string
  ci_description :: "string option"
  ci_website :: "string option"
  ci_profilePicture :: "string option"
  ci_size :: "CompanySize option"
  ci_industry :: string
  ci_location :: "string option"
  ci_foundedYear :: "int option"

datatype companyPayload =
  Suggestion int string
  | Created Company Employer

definition strOrNull :: "string option \<Rightarrow> string option" where
  "strOrNull x = (case x of None \<Rightarrow> None | Some s \<Rightarrow> if s = [] then None else Some s)"

definition makeAdmin :: "int \<Rightarrow> int \<Rightarrow> timestamp \<Rightarrow> Employer \<Rightarrow> Employer" where
  "makeAdmin eid cid now e =
     (if e_id e = eid
      then e\<lparr>e_companyId := Some cid, e_role := ADMIN, e_joinedAt := Some now\<rparr> else e)"

definition createCompany ::
  "store \<Rightarrow> timestamp \<Rightarrow> reqUser \<Rightarrow> companyInput option \<Rightarrow> companyPayload reply \<times> store" where
  "createCompany db now user body =
     (if falsyNum (u_employerId user) then (respond 401 ''Employer profile required'', db)
      else if \<not> validKey (u_employerId user) then (respond 500 ''Internal server error'', db)
      else case body of
        None \<Rightarrow> (respond 400 ''Validation failed'', db)
      | Some d \<Rightarrow>
         (case nameLookup (trim (ci_name d)) (companies db) of
            NameQueryError \<Rightarrow> (respond 500 ''Internal server error'', db)
          | NameFound existingCompany \<Rightarrow>
              (respondWith 409 ''A company with this name already exists''
                 (Suggestion (c_id existingCompany) (c_name existingCompany)), db)
          | NameNotFound \<Rightarrow>
              if \<exists>c\<in>set (companies db). c_name c = trim (ci_name d)
              then (respond 500 ''Internal server error'', db)
              else
                (let company =
                       \<lparr>c_id = companySeq db, c_name = trim (ci_name d),
                        c_description = ci_description d,
                        c_website = strOrNull (ci_website d),
                        c_profilePicture = strOrNull (ci_profilePicture d),
                        c_size = ci_size d, c_industry = Some (ci_industry d),
                        c_location = ci_location d, c_foundedYear = ci_foundedYear d,
                        c_isActive = True\<rparr>
                 in case find (\<lambda>e. e_id e = the (u_employerId user)) (employers db) of
                      None \<Rightarrow> (respond 500 ''Internal server error'', db)
                    | Some e \<Rightarrow>
                        (respondWith 201 ''Company profile created successfully''
                           (Created company
                              (makeAdmin (e_id e) (companySeq db) now e)),
                         db\<lparr>companies := companies db @ [company],
                            employers :=
                              map (makeAdmin (the (u_employerId user)) (companySeq db) now)
                                (employers db),
                            companySeq := companySeq db + 1\<rparr>))))"

section \<open>JavaScript numbers\<close>

text \<open>
  A JavaScript number is an IEEE 754 binary64 value: here a rational (a finite double),
  an infinity or NaN; the sign of zero is not kept. \<open>toDouble\<close> rounds a rational to the
  nearest double, ties to the even significand: \<open>binade q\<close> is the exponent of the
  power of two at or below \<open>q\<close>, the significand has 53 bits, the least exponent of a
  unit in the last place is -1074 (subnormals), and a result of 2^1024 or more is an
  infinity (the unit's exponent above 971, or equal to 971 with the significand rounded up
  to 2^53). Division and multiplication round the exact result once, as the hardware does.
\<close>

datatype jsnum = Num rat | PosInf | NegInf | NaN

definition binade :: "rat \<Rightarrow> int" where
  "binade q =
     (case quotient_of q of
        (a, b) \<Rightarrow>
          (if 2 powi (bitlen a - bitlen b) \<le> q then bitlen a - bitlen b
           else bitlen a - bitlen b - 1))"

definition roundHalfEven :: "rat \<Rightarrow> int" where
  "roundHalfEven q =
     (if q - of_int \<lfloor>q\<rfloor> < 1 / 2 then \<lfloor>q\<rfloor>
      else if 1 / 2 < q - of_int \<lfloor>q\<rfloor> then \<lfloor>q\<rfloor> + 1
      else if even \<lfloor>q\<rfloor> then \<lfloor>q\<rfloor> else \<lfloor>q\<rfloor> + 1)"

definition toDouble :: "rat \<Rightarrow> jsnum" where
  "toDouble q =
     (if q = 0 then Num 0
      else
        (let e = max (binade \<bar>q\<bar> - 52) (- 1074);
             v = of_int (roundHalfEven (\<bar>q\<bar> / 2 powi e)) * 2 powi e
         in if 971 < e \<or> (e = 971 \<and> 2 ^ 53 \<le> roundHalfEven (\<bar>q\<bar> / 2 powi e))
            then (if 0 < q then PosInf else NegInf)
            else Num (sgn q * v)))"

fun jsDiv :: "jsnum \<Rightarrow> jsnum \<Rightarrow> jsnum" where
  "jsDiv (Num a) (Num b) =
     (if b = 0 then (if a = 0 then NaN else if 0 < a then PosInf else NegInf)
      else toDouble (a / b))"
| "jsDiv (Num a) PosInf = Num 0"
| "jsDiv (Num a) NegInf = Num 0"
| "jsDiv PosInf (Num b) = (if b < 0 then NegInf else PosInf)"
| "jsDiv NegInf (Num b) = (if b < 0 then PosInf else NegInf)"
| "jsDiv x y = NaN"

fun jsMul :: "jsnum \<Rightarrow> jsnum \<Rightarrow> jsnum" where
  "jsMul (Num a) (Num b) = toDouble (a * b)"
| "jsMul PosInf (Num b) = (if b = 0 then NaN else if 0 < b then PosInf else NegInf)"
| "jsMul NegInf (Num b) = (if b = 0 then NaN else if 0 < b then NegInf else PosInf)"
| "jsMul (Num a) PosInf = (if a = 0 then NaN else if 0 < a then PosInf else NegInf)"
| "jsMul (Num a) NegInf = (if a = 0 then NaN else if 0 < a then NegInf else PosInf)"
| "jsMul PosInf PosInf = PosInf"
| "jsMul NegInf NegInf = PosInf"
| "jsMul PosInf NegInf = NegInf"
| "jsMul NegInf PosInf = NegInf"
| "jsMul x y = NaN"

text \<open>\<^verbatim>\<open>Math.round\<close>: the nearest integer, a tie going up.\<close>

fun mathRound :: "jsnum \<Rightarrow> jsnum" where
  "mathRound (Num q) = Num (of_int \<lfloor>q + 1 / 2\<rfloor>)"
| "mathRound x = x"

text \<open>\<^verbatim>\<open>x || 0\<close> on a number: 0 and NaN are falsy.\<close>

fun orZero :: "jsnum \<Rightarrow> jsnum" where
  "orZero NaN = Num 0"
| "orZero x = x"

text \<open>
  \<^verbatim>\<open>Math.round((c / t) * 100)\<close> on two counts. A count is a non-negative integer below
  2^53 (the keys are 32-bit), so it is a double as it stands.
\<close>

definition percentOf :: "nat \<Rightarrow> nat \<Rightarrow> jsnum" where
  "percentOf c t = mathRound (jsMul (jsDiv (Num (of_nat c)) (Num (of_nat t))) (Num 100))"

text \<open>The rounding the specification writes as \<open>round\<close>: nearest integer, a tie going up.\<close>

definition roundNearest :: "rat \<Rightarrow> int" where
  "roundNearest q = \<lfloor>q + 1 / 2\<rfloor>"

section \<open>Profile completion\<close>

text \<open>
  \<^verbatim>\<open>checkProfileStatus\<close> of the job-seeker controller and of \<^verbatim>\<open>employer.controller.ts\<close>.
  Each loads the user with its role profile (\<^verbatim>\<open>prisma.user.findUnique\<close> with a nested
  \<^verbatim>\<open>select\<close>); the loaded object is the argument here, \<open>None\<close> when no user has the id,
  and \<open>authenticated\<close> says whether \<^verbatim>\<open>req.user\<close> is set. Collections are the lists of
  their row ids. A string is truthy when it is there and not empty.
\<close>

definition truthyStr :: "string option \<Rightarrow> bool" where
  "truthyStr x = (case x of None \<Rightarrow> False | Some s \<Rightarrow> s \<noteq> [])"

record seekerView =
  sv_id :: int
  sv_skills :: "string list"
  sv_education :: "int list"
  sv_experience :: "int list"
  sv_projects :: "int list"
  sv_preferences :: "int option"

record seekerUser =
  su_name :: string
  su_phone :: "string option"
  su_location :: "string option"
  su_jobSeeker :: "seekerView option"

record seekerStatus =
  ss_basicDetails :: bool
  ss_jobSeekerProfile :: bool
  ss_education :: bool
  ss_experience :: bool
  ss_projects :: bool
  ss_preferences :: bool
  ss_nextStep :: string
  ss_completionPercentage :: jsnum
  ss_isComplete :: bool
  ss_sectionsCompleted :: nat
  ss_totalSections :: nat

definition seekerSections :: "seekerUser \<Rightarrow> bool list" where
  "seekerSections user =
     [su_name user \<noteq> [] \<and> truthyStr (su_phone user) \<and> truthyStr (su_location user),
      (case su_jobSeeker user of None \<Rightarrow> False | Some js \<Rightarrow> 0 < length (sv_skills js)),
      (case su_jobSeeker user of None \<Rightarrow> False | Some js \<Rightarrow> 0 < length (sv_education js)),
      (case su_jobSeeker user of None \<Rightarrow> False | Some js \<Rightarrow> 0 < length (sv_experience js)),
      (case su_jobSeeker user of None \<Rightarrow> False | Some js \<Rightarrow> 0 < length (sv_projects js)),
      (case su_jobSeeker user of None \<Rightarrow> False | Some js \<Rightarrow> sv_preferences js \<noteq> None)]"

definition seekerNextStep :: "bool list \<Rightarrow> string" where
  "seekerNextStep sections =
     (if \<not> sections ! 0 then ''basic_details''
      else if \<not> sections ! 1 then ''job_seeker_profile''
      else if \<not> sections ! 2 then ''education''
      else if \<not> sections ! 3 then ''experience''
      else if \<not> sections ! 4 then ''projects''
      else if \<not> sections ! 5 then ''preferences''
      else ''complete'')"

definition checkProfileStatus_jobSeeker :: "bool \<Rightarrow> seekerUser option \<Rightarrow> seekerStatus reply" where
  "checkProfileStatus_jobSeeker authenticated found =
     (if \<not> authenticated then respond 401 ''Authentication required''
      else case found of
        None \<Rightarrow> respond 404 ''User not found''
      | Some user \<Rightarrow>
          (let profileSections = seekerSections user;
               completedSections = length (filter (\<lambda>b. b) profileSections);
               totalSections = length profileSections;
               completionPercentage = percentOf completedSections totalSections
           in respondWith 200 []
                \<lparr>ss_basicDetails = profileSections ! 0,
                 ss_jobSeekerProfile = profileSections ! 1,
                 ss_education = profileSections ! 2,
                 ss_experience = profileSections ! 3,
                 ss_projects = profileSections ! 4,
                 ss_preferences = profileSections ! 5,
                 ss_nextStep = seekerNextStep profileSections,
                 ss_completionPercentage = completionPercentage,
                 ss_isComplete = (completionPercentage = Num 100),
                 ss_sectionsCompleted = completedSections,
                 ss_totalSections = totalSections\<rparr>))"

record employerView =
  ev_id :: int
  ev_companyId :: "int option"

record employerUser =
  eu_name :: string
  eu_phone :: "string option"
  eu_location :: "string option"
  eu_employer :: "employerView option"

record employerStatus =
  es_basicDetailsComplete :: bool
  es_employerProfileComplete :: bool
  es_companySelected :: bool
  es_nextStep :: string
  es_completionPercentage :: jsnum

definition checkProfileStatus_employer ::
  "bool \<Rightarrow> employerUser option \<Rightarrow> employerStatus reply" where
  "checkProfileStatus_employer authenticated found =
     (if \<not> authenticated then respond 401 ''Authentication required''
      else case found of
        None \<Rightarrow> respond 404 ''User not found''
      | Some user \<Rightarrow>
          (let basicDetailsComplete =
                 (eu_name user \<noteq> [] \<and> truthyStr (eu_phone user) \<and> truthyStr (eu_location user));
               employerProfileComplete = (eu_employer user \<noteq> None);
               companySelected =
                 (case eu_employer user of
                    None \<Rightarrow> False
                  | Some e \<Rightarrow> \<not> falsyNum (ev_companyId e));
               step =
                 (if \<not> basicDetailsComplete then (''basic_details'', Num 0)
                  else if \<not> employerProfileComplete then (''employer_profile'', Num 33)
                  else if \<not> companySelected then (''company_selection'', Num 66)
                  else (''complete'', Num 100))
           in respondWith 200 []
                \<lparr>es_basicDetailsComplete = basicDetailsComplete,
                 es_employerProfileComplete = employerProfileComplete,
                 es_companySelected = companySelected,
                 es_nextStep = fst step,
                 es_completionPercentage = snd step\<rparr>))"

section \<open>Employer dashboard: status distribution\<close>

text \<open>
  \<^verbatim>\<open>getDashboardStats\<close>, the part that builds \<^verbatim>\<open>applicationStats\<close>: the count of the
  applications to the employer's jobs in the company, the \<^verbatim>\<open>groupBy\<close> of the same
  applications by status (one group per status that occurs, here in the order of the
  enum), and the percentage of each group. The two queries are taken to read the same
  state of the store.
\<close>

record statusBucket =
  b_status :: ApplicationStatus
  b_count :: nat
  b_percentage :: jsnum

definition allStatuses :: "ApplicationStatus list" where
  "allStatuses = [PENDING, REVIEWING, SHORTLISTED, INTERVIEWED, ACCEPTED, REJECTED, WITHDRAWN]"

definition employerApplications :: "store \<Rightarrow> int \<Rightarrow> int \<Rightarrow> Application list" where
  "employerApplications db employerId companyId =
     filter (\<lambda>a. \<exists>j\<in>set (jobs db). j_id j = a_jobId a \<and> j_employerId j = employerId
                                    \<and> j_companyId j = companyId)
       (applications db)"

definition groupByStatus :: "Application list \<Rightarrow> (ApplicationStatus \<times> nat) list" where
  "groupByStatus apps =
     filter (\<lambda>g. 0 < snd g)
       (map (\<lambda>s. (s, length (filter (\<lambda>a. a_status a = s) apps))) allStatuses)"

definition statusDistribution ::
  "(ApplicationStatus \<times> nat) list \<Rightarrow> nat \<Rightarrow> statusBucket list" where
  "statusDistribution applicationStatusStats totalApplicants =
     map (\<lambda>stat. \<lparr>b_status = fst stat, b_count = snd stat,
                  b_percentage = orZero (percentOf (snd stat) totalApplicants)\<rparr>)
       applicationStatusStats"

definition getDashboardStats :: "store \<Rightarrow> reqUser \<Rightarrow> (statusBucket list \<times> nat) reply" where
  "getDashboardStats db user =
     (if falsyNum (u_employerId user) \<or> falsyNum (u_companyId user)
      then respond 400 ''Employer ID and Company ID are required''
      else
        (let apps = employerApplications db (the (u_employerId user)) (the (u_companyId user));
             totalApplicants = length apps;
             applicationStatusStats = groupByStatus apps
         in respondWith 200 ''Dashboard statistics retrieved successfully''
              (statusDistribution applicationStatusStats totalApplicants, totalApplicants)))"

section \<open>Sample data\<close>

text \<open>
  A small store on which the properties below are run: the company Nimbus, a company
  stored as "ACME " with a trailing space, an inactive company; two employers; one active
  job with two seeded default fields and an optional custom field; three applications to
  it, shortlisted, pending and accepted. Then request bodies, two loaded users, a store
  with forty applications (23 pending, 17 reviewing) and one with none.
\<close>

definition nimbus :: Company where
  "nimbus = \<lparr>c_id = 1, c_name = ''Nimbus'', c_description = None, c_website = None,
     c_profilePicture = None, c_size = None, c_industry = Some ''Cloud'', c_location = None,
     c_foundedYear = None, c_isActive = True\<rparr>"

definition acmeSpaced :: Company where
  "acmeSpaced = \<lparr>c_id = 2, c_name = ''ACME '', c_description = None, c_website = None,
     c_profilePicture = None, c_size = None, c_industry = Some ''Tools'', c_location = None,
     c_foundedYear = None, c_isActive = True\<rparr>"

definition dormant :: Company where
  "dormant = \<lparr>c_id = 3, c_name = ''Dormant'', c_description = None, c_website = None,
     c_profilePicture = None, c_size = None, c_industry = Some ''Retail'', c_location = None,
     c_foundedYear = None, c_isActive = False\<rparr>"

definition employerE :: Employer where
  "employerE = \<lparr>e_id = 1, e_userId = 10, e_companyId = Some 1, e_department = None,
     e_isActive = True, e_jobTitle = None, e_joinedAt = Some 5, e_role = ADMIN\<rparr>"

definition employerF :: Employer where
  "employerF = \<lparr>e_id = 2, e_userId = 11, e_companyId = Some 2, e_department = None,
     e_isActive = True, e_jobTitle = None, e_joinedAt = Some 7, e_role = RECRUITER\<rparr>"

definition userE :: reqUser where
  "userE = \<lparr>u_id = 10, u_jobSeekerId = None, u_employerId = Some 1, u_companyId = Some 1\<rparr>"

definition userF :: reqUser where
  "userF = \<lparr>u_id = 11, u_jobSeekerId = None, u_employerId = Some 2, u_companyId = Some 2\<rparr>"

definition seekerUserOf :: "int \<Rightarrow> reqUser" where
  "seekerUserOf sid =
     \<lparr>u_id = 100 + sid, u_jobSeekerId = Some sid, u_employerId = None, u_companyId = None\<rparr>"

definition backendJob :: Job where
  "backendJob = \<lparr>j_id = 1, j_companyId = 1, j_employerId = 1, j_title = ''Backend developer'',
     j_status = ACTIVE\<rparr>"

definition fullName :: JobFormField where
  "fullName = \<lparr>f_id = 1, f_jobId = 1, f_label = ''Full Name'', f_fieldType = TEXT,
     f_isRequired = True, f_isDefault = True, f_order = 1, f_options = []\<rparr>"

definition emailAddress :: JobFormField where
  "emailAddress = \<lparr>f_id = 2, f_jobId = 1, f_label = ''Email Address'', f_fieldType = EMAIL,
     f_isRequired = True, f_isDefault = True, f_order = 2, f_options = []\<rparr>"

definition portfolio :: JobFormField where
  "portfolio = \<lparr>f_id = 3, f_jobId = 1, f_label = ''Portfolio'', f_fieldType = TEXT,
     f_isRequired = False, f_isDefault = False, f_order = 100, f_options = []\<rparr>"

definition shortlistedApp :: Application where
  "shortlistedApp = \<lparr>a_id = 1, a_jobId = 1, a_seekerId = 1, a_status = SHORTLISTED,
     a_appliedAt = 10, a_updatedAt = 20\<rparr>"

definition pendingApp :: Application where
  "pendingApp = \<lparr>a_id = 2, a_jobId = 1, a_seekerId = 2, a_status = PENDING,
     a_appliedAt = 11, a_updatedAt = 11\<rparr>"

definition acceptedApp :: Application where
  "acceptedApp = \<lparr>a_id = 3, a_jobId = 1, a_seekerId = 3, a_status = ACCEPTED,
     a_appliedAt = 12, a_updatedAt = 30\<rparr>"

definition sampleStore :: store where
  "sampleStore =
     \<lparr>companies = [nimbus, acmeSpaced, dormant],
      employers = [employerE, employerF],
      jobs = [backendJob],
      formFields = [fullName, emailAddress, portfolio],
      applications = [shortlistedApp, pendingApp, acceptedApp],
      responses = [\<lparr>r_id = 1, r_applicationId = 1, r_fieldId = 1, r_answer = ''Ada''\<rparr>,
                   \<lparr>r_id = 2, r_applicationId = 1, r_fieldId = 2, r_answer = ''ada@example.org''\<rparr>],
      companySeq = 4, fieldSeq = 4, applicationSeq = 4, responseSeq = 3\<rparr>"

definition optionalInput :: fieldInput where
  "optionalInput = \<lparr>fi_id = None, fi_label = Some ''Cover letter'', fi_fieldType = Some TEXTAREA,
     fi_isRequired = JBool False, fi_order = None, fi_options = None\<rparr>"

definition renameDefault :: fieldInput where
  "renameDefault = \<lparr>fi_id = Some 1, fi_label = Some ''Nickname'', fi_fieldType = None,
     fi_isRequired = JBool False, fi_order = None, fi_options = None\<rparr>"

definition sampleAnswers :: "responseInput list" where
  "sampleAnswers = [\<lparr>ri_fieldId = 1, ri_answer = ''Bo''\<rparr>,
                    \<lparr>ri_fieldId = 2, ri_answer = ''bo@example.org''\<rparr>]"

definition duplicateAnswers :: "responseInput list" where
  "duplicateAnswers = [\<lparr>ri_fieldId = 1, ri_answer = ''Cy''\<rparr>,
                       \<lparr>ri_fieldId = 1, ri_answer = ''Cy again''\<rparr>,
                       \<lparr>ri_fieldId = 2, ri_answer = ''cy@example.org''\<rparr>]"

definition companyNamed :: "string \<Rightarrow> companyInput" where
  "companyNamed n = \<lparr>ci_name = n, ci_description = None, ci_website = Some [],
     ci_profilePicture = None, ci_size = None, ci_industry = ''Tools'', ci_location = None,
     ci_foundedYear = None\<rparr>"

definition seekerFourSections :: seekerUser where
  "seekerFourSections = \<lparr>su_name = ''Ada'', su_phone = Some ''555'', su_location = Some ''Oslo'',
     su_jobSeeker = Some \<lparr>sv_id = 1, sv_skills = [''SQL''], sv_education = [1],
       sv_experience = [1], sv_projects = [], sv_preferences = None\<rparr>\<rparr>"

definition employerNoCompany :: employerUser where
  "employerNoCompany = \<lparr>eu_name = ''Eve'', eu_phone = Some ''556'', eu_location = Some ''Rome'',
     eu_employer = Some \<lparr>ev_id = 1, ev_companyId = None\<rparr>\<rparr>"

definition busyStore :: store where
  "busyStore =
     sampleStore\<lparr>applications :=
       map (\<lambda>i. \<lparr>a_id = int i, a_jobId = 1, a_seekerId = int i,
                   a_status = (if i \<le> 23 then PENDING else REVIEWING),
                   a_appliedAt = 0, a_updatedAt = 0\<rparr>) [1..<41]\<rparr>"

definition quietStore :: store where
  "quietStore = sampleStore\<lparr>applications := []\<rparr>"

section \<open>Properties\<close>

lemmas sample_defs =
  sampleStore_def nimbus_def acmeSpaced_def dormant_def employerE_def employerF_def
  userE_def userF_def seekerUserOf_def backendJob_def fullName_def emailAddress_def
  portfolio_def shortlistedApp_def pendingApp_def acceptedApp_def

lemma find_None_iff_no: "(find P xs = None) = (\<not> (\<exists>x\<in>set xs. P x))"
  by (auto simp: find_None_iff)

subsection \<open>Selecting a company\<close>

lemma selectExistingCompany_invalid_key:
  assumes "u_employerId user = Some eid" and "eid \<noteq> 0" and "cid \<noteq> 0" and "\<not> inInt4 cid"
  shows "selectExistingCompany db now user (Some cid)
           = (respond 500 ''Internal server error'', db)"
  using assms by (simp add: selectExistingCompany_def)

lemma selectExistingCompany_beyond_int4:
  "selectExistingCompany sampleStore 1000 userF (Some 2147483648)
     = (respond 500 ''Internal server error'', sampleStore)"
  by (simp add: selectExistingCompany_def sample_defs inInt4_def)



subsection \<open>Required flag of created form fields\<close>

lemma boolArg_or_true: "boolArg (jsOr v (JBool True)) = Given b \<Longrightarrow> b"
  by (cases v) (auto simp: jsOr_def split: if_splits)

lemma newFieldRow_shape:
  "newFieldRow jobId fid ord field = Some row \<Longrightarrow>
     f_isRequired row \<and> \<not> f_isDefault row \<and> f_jobId row = jobId \<and> f_id row = fid"
  by (auto simp: newFieldRow_def split: option.splits arg.splits dest: boolArg_or_true)

lemma createOne_cases:
  assumes "createOne jobId ord field db = (r, db')"
  shows "(r = None \<and> db' = db)
     \<or> (\<exists>row. r = Some row \<and> f_isRequired row \<and> \<not> f_isDefault row \<and> f_jobId row = jobId
            \<and> f_id row = fieldSeq db
            \<and> db' = db\<lparr>formFields := formFields db @ [row], fieldSeq := fieldSeq db + 1\<rparr>)"
proof (cases "newFieldRow jobId (fieldSeq db) ord field")
  case None
  then show ?thesis using assms by (auto simp: createOne_def split: if_splits)
next
  case (Some row)
  show ?thesis
  proof (cases "\<exists>j\<in>set (jobs db). j_id j = jobId")
    case True
    with assms Some have "r = Some row"
      "db' = db\<lparr>formFields := formFields db @ [row], fieldSeq := fieldSeq db + 1\<rparr>"
      by (simp_all add: createOne_def)
    with newFieldRow_shape [OF Some] show ?thesis by blast
  next
    case False
    with assms have "r = None \<and> db' = db" by (simp add: createOne_def)
    then show ?thesis ..
  qed
qed

lemma createAll_length: "createAll jobId k fs db = (rs, db') \<Longrightarrow> length rs = length fs"
  by (induction fs arbitrary: k db rs db') (auto split: prod.splits)

lemma createAll_shape:
  "createAll jobId k fs db = (rs, db') \<Longrightarrow>
     (\<exists>new. formFields db' = formFields db @ new
            \<and> (\<forall>x\<in>set new. f_isRequired x \<and> \<not> f_isDefault x \<and> f_jobId x = jobId))
     \<and> (\<forall>row. Some row \<in> set rs \<longrightarrow> f_isRequired row)
     \<and> companies db' = companies db \<and> employers db' = employers db \<and> jobs db' = jobs db
     \<and> applications db' = applications db \<and> responses db' = responses db"
proof (induction fs arbitrary: k db rs db')
  case Nil
  then show ?case by simp
next
  case (Cons f fs)
  obtain r db1 where one: "createOne jobId (numOr (fi_order f) (int k + 100)) f db = (r, db1)"
    by (cases "createOne jobId (numOr (fi_order f) (int k + 100)) f db")
  obtain rs2 db2 where rest: "createAll jobId (Suc k) fs db1 = (rs2, db2)"
    by (cases "createAll jobId (Suc k) fs db1")
  from Cons.prems one rest have eq: "rs = r # rs2" "db' = db2" by auto
  note ih = Cons.IH [OF rest]
  from createOne_cases [OF one] show ?case
  proof
    assume "r = None \<and> db1 = db"
    with ih eq show ?thesis by auto
  next
    assume "\<exists>row. r = Some row \<and> f_isRequired row \<and> \<not> f_isDefault row \<and> f_jobId row = jobId
            \<and> f_id row = fieldSeq db
            \<and> db1 = db\<lparr>formFields := formFields db @ [row], fieldSeq := fieldSeq db + 1\<rparr>"
    then obtain row where row: "r = Some row" "f_isRequired row" "\<not> f_isDefault row"
      "f_jobId row = jobId"
      "db1 = db\<lparr>formFields := formFields db @ [row], fieldSeq := fieldSeq db + 1\<rparr>"
      by blast
    from ih obtain new where new: "formFields db2 = formFields db1 @ new"
      "\<forall>x\<in>set new. f_isRequired x \<and> \<not> f_isDefault x \<and> f_jobId x = jobId" by blast
    have "formFields db' = formFields db @ (row # new)" using new row eq by simp
    moreover have "\<forall>x\<in>set (row # new). f_isRequired x \<and> \<not> f_isDefault x \<and> f_jobId x = jobId"
      using new row by simp
    ultimately have "\<exists>new. formFields db' = formFields db @ new
            \<and> (\<forall>x\<in>set new. f_isRequired x \<and> \<not> f_isDefault x \<and> f_jobId x = jobId)" by blast
    then show ?thesis using ih eq row by auto
  qed
qed

lemma deleteFields_simps:
  "formFields (deleteFields P db) = filter (\<lambda>f. \<not> P f) (formFields db)"
  "companies (deleteFields P db) = companies db"
  "employers (deleteFields P db) = employers db"
  "jobs (deleteFields P db) = jobs db"
  "applications (deleteFields P db) = applications db"
  by (simp_all add: deleteFields_def)

lemma createJobForm_fields:
  "\<exists>new. formFields (snd (createJobForm db jobId (Some fs)))
            = filter (\<lambda>f. \<not> (f_jobId f = jobId \<and> \<not> f_isDefault f)) (formFields db) @ new
         \<and> (\<forall>x\<in>set new. f_isRequired x \<and> \<not> f_isDefault x \<and> f_jobId x = jobId)"
proof -
  obtain rs db2 where all:
    "createAll jobId 0 fs (deleteFields (\<lambda>f. f_jobId f = jobId \<and> \<not> f_isDefault f) db) = (rs, db2)"
    by (cases "createAll jobId 0 fs (deleteFields (\<lambda>f. f_jobId f = jobId \<and> \<not> f_isDefault f) db)")
  then have snd: "snd (createJobForm db jobId (Some fs)) = db2"
    by (simp add: createJobForm_def)
  from createAll_shape [OF all] show ?thesis
    unfolding snd by (simp add: deleteFields_simps)
qed


lemma updateOne_new:
  "falsyNum (fi_id field) \<Longrightarrow>
     updateOne jobId field db = createOne jobId (numOr (fi_order field) 0) field db"
  by (simp add: updateOne_def)





subsection \<open>Default form fields\<close>

lemma find_distinct_key:
  assumes "distinct (map key xs)" and "x \<in> set xs"
  shows "find (\<lambda>y. key y = key x) xs = Some x"
  using assms by (induction xs) (auto simp: rev_image_eqI)

lemma applyFieldUpdate_keeps:
  "f_id (applyFieldUpdate field r) = f_id r"
  "f_isDefault (applyFieldUpdate field r) = f_isDefault r"
  "f_jobId (applyFieldUpdate field r) = f_jobId r"
  by (simp_all add: applyFieldUpdate_def)

lemma default_ids_map:
  assumes "\<And>x. f_id (g x) = f_id x" and "\<And>x. f_isDefault (g x) = f_isDefault x"
    and "\<forall>x\<in>set new. \<not> f_isDefault x"
  shows "map f_id (filter f_isDefault (map g xs @ new)) = map f_id (filter f_isDefault xs)"
proof -
  have "filter f_isDefault new = []" using assms(3) by (induction new) auto
  moreover have "map f_id (filter f_isDefault (map g xs)) = map f_id (filter f_isDefault xs)"
    using assms(1,2) by (induction xs) auto
  ultimately show ?thesis by simp
qed

lemma updateOne_shape:
  assumes "updateOne jobId field db = (r, db')"
  shows "\<exists>g new. formFields db' = map g (formFields db) @ new
           \<and> (\<forall>x. f_id (g x) = f_id x \<and> f_isDefault (g x) = f_isDefault x)
           \<and> (\<forall>x\<in>set new. \<not> f_isDefault x)"
proof (cases "falsyNum (fi_id field)")
  case True
  with assms have "createOne jobId (numOr (fi_order field) 0) field db = (r, db')"
    by (simp add: updateOne_new)
  from createOne_cases [OF this] obtain new where
    "formFields db' = formFields db @ new" "\<forall>x\<in>set new. \<not> f_isDefault x"
    by (elim disjE exE conjE) (force, force)
  then have "formFields db' = map (\<lambda>x. x) (formFields db) @ new
      \<and> (\<forall>x. f_id ((\<lambda>x. x) x) = f_id x \<and> f_isDefault ((\<lambda>x. x) x) = f_isDefault x)
      \<and> (\<forall>x\<in>set new. \<not> f_isDefault x)" by simp
  then show ?thesis by blast
next
  case False
  let ?g = "\<lambda>r. if f_id r = the (fi_id field) then applyFieldUpdate field r else r"
  from False assms have "formFields db' = formFields db \<or> formFields db' = map ?g (formFields db)"
    by (auto simp: updateOne_def split: if_splits option.splits)
  then show ?thesis
  proof
    assume "formFields db' = formFields db"
    then have "formFields db' = map (\<lambda>x. x) (formFields db) @ []
      \<and> (\<forall>x. f_id ((\<lambda>x. x) x) = f_id x \<and> f_isDefault ((\<lambda>x. x) x) = f_isDefault x)
      \<and> (\<forall>x\<in>set []. \<not> f_isDefault x)" by simp
    then show ?thesis by blast
  next
    assume "formFields db' = map ?g (formFields db)"
    then have "formFields db' = map ?g (formFields db) @ []
      \<and> (\<forall>x. f_id (?g x) = f_id x \<and> f_isDefault (?g x) = f_isDefault x)
      \<and> (\<forall>x\<in>set []. \<not> f_isDefault x)" by (simp add: applyFieldUpdate_keeps)
    then show ?thesis by blast
  qed
qed

lemma updateAll_shape:
  "updateAll jobId fs db = (rs, db') \<Longrightarrow>
     \<exists>g new. formFields db' = map g (formFields db) @ new
           \<and> (\<forall>x. f_id (g x) = f_id x \<and> f_isDefault (g x) = f_isDefault x)
           \<and> (\<forall>x\<in>set new. \<not> f_isDefault x)"
proof (induction fs arbitrary: db rs db')
  case Nil
  then have "formFields db' = map (\<lambda>x. x) (formFields db) @ []
      \<and> (\<forall>x. f_id ((\<lambda>x. x) x) = f_id x \<and> f_isDefault ((\<lambda>x. x) x) = f_isDefault x)
      \<and> (\<forall>x\<in>set []. \<not> f_isDefault x)" by simp
  then show ?case by blast
next
  case (Cons f fs)
  obtain r db1 where one: "updateOne jobId f db = (r, db1)"
    by (cases "updateOne jobId f db")
  obtain rs2 db2 where rest: "updateAll jobId fs db1 = (rs2, db2)"
    by (cases "updateAll jobId fs db1")
  from Cons.prems one rest have eq: "db' = db2" by auto
  from updateOne_shape [OF one] obtain g1 new1 where
    s1: "formFields db1 = map g1 (formFields db) @ new1"
        "\<forall>x. f_id (g1 x) = f_id x \<and> f_isDefault (g1 x) = f_isDefault x"
        "\<forall>x\<in>set new1. \<not> f_isDefault x" by blast
  from Cons.IH [OF rest] obtain g2 new2 where
    s2: "formFields db2 = map g2 (formFields db1) @ new2"
        "\<forall>x. f_id (g2 x) = f_id x \<and> f_isDefault (g2 x) = f_isDefault x"
        "\<forall>x\<in>set new2. \<not> f_isDefault x" by blast
  have "formFields db' = map (g2 \<circ> g1) (formFields db) @ (map g2 new1 @ new2)"
    using s1(1) s2(1) eq by simp
  moreover have "\<forall>x. f_id ((g2 \<circ> g1) x) = f_id x \<and> f_isDefault ((g2 \<circ> g1) x) = f_isDefault x"
    using s1(2) s2(2) by simp
  moreover have "\<forall>x\<in>set (map g2 new1 @ new2). \<not> f_isDefault x"
    using s1(3) s2(2,3) by auto
  ultimately show ?case by blast
qed

lemma createJobForm_keeps_defaults:
  "filter f_isDefault (formFields (snd (createJobForm db jobId fl)))
     = filter f_isDefault (formFields db)"
proof (cases fl)
  case None
  then show ?thesis by (simp add: createJobForm_def)
next
  case (Some fs)
  from createJobForm_fields [of db jobId fs] obtain new where
    new: "formFields (snd (createJobForm db jobId (Some fs)))
            = filter (\<lambda>f. \<not> (f_jobId f = jobId \<and> \<not> f_isDefault f)) (formFields db) @ new"
         "\<forall>x\<in>set new. \<not> f_isDefault x" by blast
  have "filter f_isDefault new = []" using new(2) by (induction new) auto
  moreover have "filter f_isDefault
           (filter (\<lambda>f. \<not> (f_jobId f = jobId \<and> \<not> f_isDefault f)) (formFields db))
         = filter f_isDefault (formFields db)"
    by (induction "formFields db") (auto intro: filter_cong)
  ultimately show ?thesis using new(1) Some by simp
qed

lemma updateJobForm_keeps_default_ids:
  "map f_id (filter f_isDefault (formFields (snd (updateJobForm db jobId fl))))
     = map f_id (filter f_isDefault (formFields db))"
proof (cases fl)
  case None
  then show ?thesis by (simp add: updateJobForm_def)
next
  case (Some fs)
  obtain rs db2 where all: "updateAll jobId fs db = (rs, db2)"
    by (cases "updateAll jobId fs db")
  then have snd: "snd (updateJobForm db jobId fl) = db2"
    using Some by (simp add: updateJobForm_def)
  from updateAll_shape [OF all] obtain g new where
    "formFields db2 = map g (formFields db) @ new"
    "\<forall>x. f_id (g x) = f_id x \<and> f_isDefault (g x) = f_isDefault x"
    "\<forall>x\<in>set new. \<not> f_isDefault x" by blast
  then show ?thesis unfolding snd using default_ids_map [of g new "formFields db"] by simp
qed

text \<open>
  C7, as the code has it. Deleting a default field answers 400 and changes nothing;
  \<^verbatim>\<open>createJobForm\<close> leaves the default fields of the store exactly as they were;
  \<^verbatim>\<open>updateJobForm\<close> deletes no default field, adds none and keeps their ids and flags, but
  it may rewrite their label, type, required flag, order and options (the counterexample
  below).
\<close>

theorem default_fields_protection:
  "(distinct (map f_id (formFields db)) \<longrightarrow> f \<in> set (formFields db) \<longrightarrow> f_isDefault f \<longrightarrow>
      deleteJobFormField db (f_id f) = (respond 400 ''Cannot delete default form fields'', db))
   \<and> filter f_isDefault (formFields (snd (createJobForm db jobId fl)))
       = filter f_isDefault (formFields db)
   \<and> map f_id (filter f_isDefault (formFields (snd (updateJobForm db jobId fl))))
       = map f_id (filter f_isDefault (formFields db))"
proof (intro conjI impI)
  assume "distinct (map f_id (formFields db))" and "f \<in> set (formFields db)" and "f_isDefault f"
  then show "deleteJobFormField db (f_id f) = (respond 400 ''Cannot delete default form fields'', db)"
    by (simp add: deleteJobFormField_def find_distinct_key)
qed (rule createJobForm_keeps_defaults, rule updateJobForm_keeps_default_ids)

theorem default_fields_protection_witness:
  "deleteJobFormField sampleStore 1 = (respond 400 ''Cannot delete default form fields'', sampleStore)
   \<and> filter f_isDefault (formFields (snd (createJobForm sampleStore 1 (Some [optionalInput]))))
       = [fullName, emailAddress]
   \<and> map f_id (filter f_isDefault (formFields (snd (updateJobForm sampleStore 1 (Some [renameDefault])))))
       = [1, 2]"
  using default_fields_protection [of sampleStore fullName 1 "Some [optionalInput]"]
        default_fields_protection [of sampleStore fullName 1 "Some [renameDefault]"]
  by (simp add: sample_defs)

theorem updateJobForm_rewrites_default_counterexample:
  "f_isDefault fullName \<and> f_label fullName = ''Full Name'' \<and> f_isRequired fullName
   \<and> statusCode (fst (updateJobForm sampleStore 1 (Some [renameDefault]))) = 200
   \<and> formFields (snd (updateJobForm sampleStore 1 (Some [renameDefault])))
       = [fullName\<lparr>f_label := ''Nickname'', f_isRequired := False\<rparr>, emailAddress, portfolio]"
  by (simp add: sample_defs renameDefault_def updateJobForm_def updateOne_def
        applyFieldUpdate_def respondWith_def)

subsection \<open>Withdrawing an application\<close>

lemma find_SomeD: "find P xs = Some x \<Longrightarrow> P x \<and> x \<in> set xs"
  by (induction xs) (auto split: if_splits)

lemma distinct_key_eq:
  "distinct (map key xs) \<Longrightarrow> x \<in> set xs \<Longrightarrow> y \<in> set xs \<Longrightarrow> key x = key y \<Longrightarrow> x = y"
  by (auto simp: distinct_map dest: inj_onD)

lemma find_ex_Some: "\<exists>x\<in>set xs. P x \<Longrightarrow> \<exists>y. find P xs = Some y"
  by (cases "find P xs") (auto simp: find_None_iff_no)

lemma setStatus_withdrawn:
  "setStatus aid WITHDRAWN now
     = (\<lambda>a. if a_id a = aid then a\<lparr>a_status := WITHDRAWN, a_updatedAt := now\<rparr> else a)"
  by (rule ext) (simp add: setStatus_def)

lemma JobSeeker_withdraw_ok:
  assumes "u_jobSeekerId user = Some sid" and "sid \<noteq> 0" and "inInt4 sid" and "inInt4 aid"
    and "\<exists>a\<in>set (applications db). a_id a = aid \<and> a_seekerId a = sid
            \<and> (a_status a = PENDING \<or> a_status a = REVIEWING)"
  shows "statusCode (fst (JobSeekerController_withdrawApplication db now user (Some aid))) = 200
     \<and> snd (JobSeekerController_withdrawApplication db now user (Some aid))
         = db\<lparr>applications := map (setStatus aid WITHDRAWN now) (applications db)\<rparr>"
proof -
  from assms(5) obtain y where
    "find (\<lambda>a. a_id a = aid \<and> a_seekerId a = sid \<and> a_status a \<in> set [PENDING, REVIEWING])
       (applications db) = Some y"
    using find_ex_Some [of "applications db"
        "\<lambda>a. a_id a = aid \<and> a_seekerId a = sid \<and> a_status a \<in> set [PENDING, REVIEWING]"]
    by auto
  with assms(1-4) show ?thesis
    by (simp add: JobSeekerController_withdrawApplication_def respondWith_def)
qed

lemma JobSeeker_withdraw_refused:
  assumes "u_jobSeekerId user = Some sid" and "sid \<noteq> 0" and "inInt4 sid" and "inInt4 aid"
    and "\<not> (\<exists>a\<in>set (applications db). a_id a = aid \<and> a_seekerId a = sid
            \<and> (a_status a = PENDING \<or> a_status a = REVIEWING))"
  shows "JobSeekerController_withdrawApplication db now user (Some aid)
           = (respond 404 ''Application not found or cannot be withdrawn'', db)"
proof -
  from assms(5) have
    "find (\<lambda>a. a_id a = aid \<and> a_seekerId a = sid \<and> a_status a \<in> set [PENDING, REVIEWING])
       (applications db) = None"
    by (auto simp: find_None_iff_no)
  with assms(1-4) show ?thesis
    by (simp add: JobSeekerController_withdrawApplication_def)
qed

lemma History_withdraw_found:
  assumes "u_jobSeekerId user = Some sid" and "distinct (map a_id (applications db))"
    and "a \<in> set (applications db)" and "a_id a = aid" and "a_seekerId a = sid"
  shows "find (\<lambda>a. a_id a = aid
                  \<and> (case u_jobSeekerId user of None \<Rightarrow> True | Some s \<Rightarrow> a_seekerId a = s))
           (applications db) = Some a"
proof -
  from assms obtain y where y:
    "find (\<lambda>a. a_id a = aid \<and> (case u_jobSeekerId user of None \<Rightarrow> True | Some s \<Rightarrow> a_seekerId a = s))
       (applications db) = Some y"
    using find_ex_Some [of "applications db"
        "\<lambda>a. a_id a = aid \<and> (case u_jobSeekerId user of None \<Rightarrow> True | Some s \<Rightarrow> a_seekerId a = s)"]
    by auto
  from find_SomeD [OF y] have "y \<in> set (applications db)" "a_id y = aid" by auto
  with assms(2,3,4) have "y = a" using distinct_key_eq [of a_id "applications db" y a] by simp
  with y show ?thesis by simp
qed

lemma History_withdraw_missing:
  assumes "u_jobSeekerId user = Some sid" and "inInt4 sid" and "inInt4 aid"
    and "\<not> (\<exists>a\<in>set (applications db). a_id a = aid \<and> a_seekerId a = sid)"
  shows "ApplicationHistoryController_withdrawApplication db now user (Some aid)
           = (respond 404 ''Application not found or access denied'', db)"
proof -
  from assms have
    "find (\<lambda>a. a_id a = aid \<and> (case u_jobSeekerId user of None \<Rightarrow> True | Some s \<Rightarrow> a_seekerId a = s))
       (applications db) = None"
    by (auto simp: find_None_iff_no)
  with assms(1-3) show ?thesis
    by (simp add: ApplicationHistoryController_withdrawApplication_def)
qed

text \<open>
  An application id that is NaN or outside the 32-bit range is answered 500 by both
  entry points, and nothing is written.
\<close>

lemma withdraw_invalid_id:
  assumes "u_jobSeekerId user = Some sid" and "sid \<noteq> 0" and "\<not> validKey applicationId"
  shows "JobSeekerController_withdrawApplication db now user applicationId
           = (respond 500 ''Failed to withdraw application'', db)"
    and "ApplicationHistoryController_withdrawApplication db now user applicationId
           = (respond 500 ''Internal server error'', db)"
  using assms
  by (simp_all add: JobSeekerController_withdrawApplication_def
        ApplicationHistoryController_withdrawApplication_def)

lemma withdraw_beyond_int4:
  "JobSeekerController_withdrawApplication sampleStore 1000 (seekerUserOf 2) (Some 2147483648)
     = (respond 500 ''Failed to withdraw application'', sampleStore)
   \<and> ApplicationHistoryController_withdrawApplication sampleStore 1000 (seekerUserOf 2) None
     = (respond 500 ''Internal server error'', sampleStore)"
  by (simp add: JobSeekerController_withdrawApplication_def
        ApplicationHistoryController_withdrawApplication_def sample_defs inInt4_def)

text \<open>
  C1, as the code has it. For a caller with a seeker profile and an application id that
  is a valid key: \<^verbatim>\<open>JobSeekerController.withdrawApplication\<close> sets the status to WITHDRAWN
  (and the row's \<^verbatim>\<open>updatedAt\<close> to the time of the update) exactly when the application is the
  caller's and is PENDING or REVIEWING, and otherwise answers 404 with the store
  unchanged. \<^verbatim>\<open>ApplicationHistoryController.withdrawApplication\<close> does the same from
  PENDING and REVIEWING, answers 404 for an application that is missing or someone
  else's and 400 from ACCEPTED, REJECTED and WITHDRAWN, each time with the store
  unchanged; whenever it changes the store, the application is the caller's and was not
  in one of those three states.
\<close>

theorem withdraw_entry_points:
  assumes "u_jobSeekerId user = Some sid" and "sid \<noteq> 0" and "inInt4 sid" and "inInt4 aid"
    and "distinct (map a_id (applications db))"
  shows
   "((\<exists>a\<in>set (applications db). a_id a = aid \<and> a_seekerId a = sid
          \<and> (a_status a = PENDING \<or> a_status a = REVIEWING)) \<longrightarrow>
        statusCode (fst (JobSeekerController_withdrawApplication db now user (Some aid))) = 200
      \<and> snd (JobSeekerController_withdrawApplication db now user (Some aid))
          = db\<lparr>applications :=
                 map (\<lambda>a. if a_id a = aid
                           then a\<lparr>a_status := WITHDRAWN, a_updatedAt := now\<rparr> else a)
                   (applications db)\<rparr>
      \<and> statusCode (fst (ApplicationHistoryController_withdrawApplication db now user (Some aid)))
          = 200
      \<and> snd (ApplicationHistoryController_withdrawApplication db now user (Some aid))
          = db\<lparr>applications :=
                 map (\<lambda>a. if a_id a = aid
                           then a\<lparr>a_status := WITHDRAWN, a_updatedAt := now\<rparr> else a)
                   (applications db)\<rparr>)
    \<and> (\<not> (\<exists>a\<in>set (applications db). a_id a = aid \<and> a_seekerId a = sid
          \<and> (a_status a = PENDING \<or> a_status a = REVIEWING)) \<longrightarrow>
        JobSeekerController_withdrawApplication db now user (Some aid)
          = (respond 404 ''Application not found or cannot be withdrawn'', db))
    \<and> (\<not> (\<exists>a\<in>set (applications db). a_id a = aid \<and> a_seekerId a = sid) \<longrightarrow>
        ApplicationHistoryController_withdrawApplication db now user (Some aid)
          = (respond 404 ''Application not found or access denied'', db))
    \<and> ((\<exists>a\<in>set (applications db). a_id a = aid \<and> a_seekerId a = sid
          \<and> (a_status a = ACCEPTED \<or> a_status a = REJECTED \<or> a_status a = WITHDRAWN)) \<longrightarrow>
        statusCode (fst (ApplicationHistoryController_withdrawApplication db now user (Some aid)))
          = 400
      \<and> snd (ApplicationHistoryController_withdrawApplication db now user (Some aid)) = db)
    \<and> (snd (ApplicationHistoryController_withdrawApplication db now user (Some aid)) \<noteq> db \<longrightarrow>
        (\<exists>a\<in>set (applications db). a_id a = aid \<and> a_seekerId a = sid
          \<and> a_status a \<noteq> ACCEPTED \<and> a_status a \<noteq> REJECTED \<and> a_status a \<noteq> WITHDRAWN))"
proof (intro conjI impI)
  assume ex: "\<exists>a\<in>set (applications db). a_id a = aid \<and> a_seekerId a = sid
          \<and> (a_status a = PENDING \<or> a_status a = REVIEWING)"
  from JobSeeker_withdraw_ok [OF assms(1-4) ex, of now]
  show "statusCode (fst (JobSeekerController_withdrawApplication db now user (Some aid))) = 200"
    and "snd (JobSeekerController_withdrawApplication db now user (Some aid))
          = db\<lparr>applications :=
                 map (\<lambda>a. if a_id a = aid
                           then a\<lparr>a_status := WITHDRAWN, a_updatedAt := now\<rparr> else a)
                   (applications db)\<rparr>"
    by (simp_all add: setStatus_withdrawn)
  from ex obtain a where a: "a \<in> set (applications db)" "a_id a = aid" "a_seekerId a = sid"
    "a_status a = PENDING \<or> a_status a = REVIEWING" by blast
  note found = History_withdraw_found [OF assms(1,5) a(1,2,3)]
  from found a(4) assms(3,4)
  show "statusCode (fst (ApplicationHistoryController_withdrawApplication db now user (Some aid)))
          = 200"
    by (auto simp: ApplicationHistoryController_withdrawApplication_def respondWith_def assms(1))
  from found a(4) assms(3,4)
  show "snd (ApplicationHistoryController_withdrawApplication db now user (Some aid))
          = db\<lparr>applications :=
                 map (\<lambda>a. if a_id a = aid
                           then a\<lparr>a_status := WITHDRAWN, a_updatedAt := now\<rparr> else a)
                   (applications db)\<rparr>"
    by (auto simp: ApplicationHistoryController_withdrawApplication_def setStatus_withdrawn
          assms(1))
next
  assume "\<not> (\<exists>a\<in>set (applications db). a_id a = aid \<and> a_seekerId a = sid
          \<and> (a_status a = PENDING \<or> a_status a = REVIEWING))"
  from JobSeeker_withdraw_refused [OF assms(1-4) this]
  show "JobSeekerController_withdrawApplication db now user (Some aid)
          = (respond 404 ''Application not found or cannot be withdrawn'', db)" .
next
  assume "\<not> (\<exists>a\<in>set (applications db). a_id a = aid \<and> a_seekerId a = sid)"
  from History_withdraw_missing [OF assms(1,3,4) this]
  show "ApplicationHistoryController_withdrawApplication db now user (Some aid)
          = (respond 404 ''Application not found or access denied'', db)" .
next
  assume ex: "\<exists>a\<in>set (applications db). a_id a = aid \<and> a_seekerId a = sid
          \<and> (a_status a = ACCEPTED \<or> a_status a = REJECTED \<or> a_status a = WITHDRAWN)"
  then obtain a where a: "a \<in> set (applications db)" "a_id a = aid" "a_seekerId a = sid"
    "a_status a = ACCEPTED \<or> a_status a = REJECTED \<or> a_status a = WITHDRAWN" by blast
  note found = History_withdraw_found [OF assms(1,5) a(1,2,3)]
  from found a(4) assms(3,4)
  show "statusCode (fst (ApplicationHistoryController_withdrawApplication db now user (Some aid)))
          = 400"
    by (auto simp: ApplicationHistoryController_withdrawApplication_def respond_def assms(1))
  from found a(4) assms(3,4)
  show "snd (ApplicationHistoryController_withdrawApplication db now user (Some aid)) = db"
    by (auto simp: ApplicationHistoryController_withdrawApplication_def assms(1))
next
  assume changed:
    "snd (ApplicationHistoryController_withdrawApplication db now user (Some aid)) \<noteq> db"
  let ?P = "\<lambda>a. a_id a = aid \<and> (case u_jobSeekerId user of None \<Rightarrow> True | Some s \<Rightarrow> a_seekerId a = s)"
  from changed obtain y where y: "find ?P (applications db) = Some y"
    by (cases "find ?P (applications db)")
       (auto simp: ApplicationHistoryController_withdrawApplication_def split: if_splits)
  from find_SomeD [OF y] assms(1) have in_set: "y \<in> set (applications db)"
    and own: "a_id y = aid" "a_seekerId y = sid" by auto
  from changed y have "a_status y \<noteq> ACCEPTED \<and> a_status y \<noteq> REJECTED \<and> a_status y \<noteq> WITHDRAWN"
    by (auto simp: ApplicationHistoryController_withdrawApplication_def split: if_splits)
  with in_set own
  show "\<exists>a\<in>set (applications db). a_id a = aid \<and> a_seekerId a = sid
          \<and> a_status a \<noteq> ACCEPTED \<and> a_status a \<noteq> REJECTED \<and> a_status a \<noteq> WITHDRAWN"
    by blast
qed

theorem withdraw_entry_points_witness:
  "applications (snd (JobSeekerController_withdrawApplication sampleStore 1000
       (seekerUserOf 2) (Some 2)))
     = [shortlistedApp, pendingApp\<lparr>a_status := WITHDRAWN, a_updatedAt := 1000\<rparr>, acceptedApp]
   \<and> applications (snd (ApplicationHistoryController_withdrawApplication sampleStore 1000
       (seekerUserOf 2) (Some 2)))
     = [shortlistedApp, pendingApp\<lparr>a_status := WITHDRAWN, a_updatedAt := 1000\<rparr>, acceptedApp]
   \<and> JobSeekerController_withdrawApplication sampleStore 1000 (seekerUserOf 3) (Some 3)
     = (respond 404 ''Application not found or cannot be withdrawn'', sampleStore)
   \<and> statusCode (fst (ApplicationHistoryController_withdrawApplication sampleStore 1000
       (seekerUserOf 3) (Some 3))) = 400
   \<and> snd (ApplicationHistoryController_withdrawApplication sampleStore 1000
       (seekerUserOf 3) (Some 3)) = sampleStore
   \<and> ApplicationHistoryController_withdrawApplication sampleStore 1000 (seekerUserOf 1) (Some 2)
     = (respond 404 ''Application not found or access denied'', sampleStore)"
  using withdraw_entry_points [of "seekerUserOf 2" 2 2 sampleStore 1000]
        withdraw_entry_points [of "seekerUserOf 3" 3 3 sampleStore 1000]
        withdraw_entry_points [of "seekerUserOf 1" 1 2 sampleStore 1000]
  by (simp add: sample_defs inInt4_def)

theorem history_withdraw_from_shortlisted_counterexample:
  "a_status shortlistedApp = SHORTLISTED \<and> a_seekerId shortlistedApp = 1
   \<and> ApplicationHistoryController_withdrawApplication sampleStore 1000 (seekerUserOf 1) (Some 1)
     = (respondWith 200 ''Application withdrawn successfully''
          (shortlistedApp\<lparr>a_status := WITHDRAWN, a_updatedAt := 1000\<rparr>),
        sampleStore\<lparr>applications :=
          [shortlistedApp\<lparr>a_status := WITHDRAWN, a_updatedAt := 1000\<rparr>, pendingApp,
           acceptedApp]\<rparr>)"
  by (simp add: sample_defs ApplicationHistoryController_withdrawApplication_def setStatus_def
        inInt4_def)

subsection \<open>Terminal states\<close>

lemma find_by_id:
  "distinct (map a_id xs) \<Longrightarrow> a \<in> set xs \<Longrightarrow> find (\<lambda>r. a_id r = a_id a) xs = Some a"
  by (induction xs) (auto simp: rev_image_eqI)

lemma statusOfString_allowed:
  "s \<in> set allowedStatuses \<Longrightarrow> \<exists>st. statusOfString s = Some st \<and> st \<noteq> WITHDRAWN \<and> s \<noteq> []"
  by (auto simp: allowedStatuses_def statusOfString_def)

lemma falsyNum_the: "\<not> falsyNum x \<Longrightarrow> Some (the x) = x"
  by (cases x) auto

lemma applyForJob_applications:
  "applications (snd (applyForJob db now user jobId body)) = applications db
   \<or> (\<exists>new. applications (snd (applyForJob db now user jobId body)) = applications db @ [new]
          \<and> a_jobId new = jobId \<and> Some (a_seekerId new) = u_jobSeekerId user
          \<and> \<not> (\<exists>a\<in>set (applications db). a_jobId a = jobId \<and> a_seekerId a = a_seekerId new))"
  by (auto simp: applyForJob_def applicationCreateOk_def Let_def falsyNum_the
           split: option.splits if_splits)

lemma terminal_seeker_side:
  assumes "distinct (map a_id (applications db))" and "a \<in> set (applications db)"
    and "a_status a = ACCEPTED \<or> a_status a = REJECTED \<or> a_status a = WITHDRAWN"
  shows "snd (JobSeekerController_withdrawApplication db now user (Some (a_id a))) = db"
    and "snd (ApplicationHistoryController_withdrawApplication db now user (Some (a_id a))) = db"
proof -
  let ?P = "\<lambda>x. a_id x = a_id a \<and> a_seekerId x = the (u_jobSeekerId user)
                \<and> a_status x \<in> set [PENDING, REVIEWING]"
  have "find ?P (applications db) = None"
  proof (cases "find ?P (applications db)")
    case (Some y)
    from find_SomeD [OF Some] have "y \<in> set (applications db)" "a_id y = a_id a"
      "a_status y = PENDING \<or> a_status y = REVIEWING" by auto
    with assms distinct_key_eq [of a_id "applications db" y a] show ?thesis by auto
  qed simp
  then show "snd (JobSeekerController_withdrawApplication db now user (Some (a_id a))) = db"
    by (simp add: JobSeekerController_withdrawApplication_def)
  let ?Q = "\<lambda>x. a_id x = a_id a
               \<and> (case u_jobSeekerId user of None \<Rightarrow> True | Some s \<Rightarrow> a_seekerId x = s)"
  show "snd (ApplicationHistoryController_withdrawApplication db now user (Some (a_id a))) = db"
  proof (cases "find ?Q (applications db)")
    case None
    then show ?thesis by (simp add: ApplicationHistoryController_withdrawApplication_def)
  next
    case (Some y)
    from find_SomeD [OF Some] have "y \<in> set (applications db)" "a_id y = a_id a" by auto
    with assms(1,2) have "y = a" using distinct_key_eq [of a_id "applications db" y a] by simp
    with Some assms(3) show ?thesis
      by (auto simp: ApplicationHistoryController_withdrawApplication_def)
  qed
qed

lemma updateApplicationStatus_overwrites:
  assumes "distinct (map a_id (applications db))" and "a \<in> set (applications db)"
    and "s \<in> set allowedStatuses"
  shows "\<exists>st. statusOfString s = Some st \<and> st \<noteq> WITHDRAWN
           \<and> statusCode (fst (updateApplicationStatus db now (a_id a) (Some s))) = 200
           \<and> a\<lparr>a_status := st, a_updatedAt := now\<rparr>
               \<in> set (applications (snd (updateApplicationStatus db now (a_id a) (Some s))))"
proof -
  from statusOfString_allowed [OF assms(3)] obtain st where
    st: "statusOfString s = Some st" "st \<noteq> WITHDRAWN" "s \<noteq> []" by blast
  note found = find_by_id [OF assms(1,2)]
  have "statusCode (fst (updateApplicationStatus db now (a_id a) (Some s))) = 200"
    using st found assms(3) by (simp add: updateApplicationStatus_def respondWith_def)
  moreover have "applications (snd (updateApplicationStatus db now (a_id a) (Some s)))
      = map (\<lambda>r. if a_id r = a_id a then r\<lparr>a_status := st, a_updatedAt := now\<rparr> else r)
          (applications db)"
    using st found assms(3) by (simp add: updateApplicationStatus_def)
  moreover have "a\<lparr>a_status := st, a_updatedAt := now\<rparr>
      \<in> set (map (\<lambda>r. if a_id r = a_id a then r\<lparr>a_status := st, a_updatedAt := now\<rparr> else r)
          (applications db))"
    using assms(2) by (auto simp: image_iff intro!: bexI [of _ a])
  ultimately show ?thesis using st by auto
qed

text \<open>
  C2, as the code has it. An application that is ACCEPTED, REJECTED or WITHDRAWN is
  terminal for the seeker's operations: both withdraw entry points and \<^verbatim>\<open>applyForJob\<close>
  leave it as it is. The employer's \<^verbatim>\<open>updateApplicationStatus\<close> does not look at the
  present status: for each status of its allow-list it answers 200 and the application
  carries that status afterwards.
\<close>

theorem terminal_only_for_seeker:
  assumes "distinct (map a_id (applications db))" and "a \<in> set (applications db)"
    and "a_status a = ACCEPTED \<or> a_status a = REJECTED \<or> a_status a = WITHDRAWN"
  shows "snd (JobSeekerController_withdrawApplication db now user (Some (a_id a))) = db
    \<and> snd (ApplicationHistoryController_withdrawApplication db now user (Some (a_id a))) = db
    \<and> a \<in> set (applications (snd (applyForJob db now user jobId body)))
    \<and> (\<forall>s\<in>set allowedStatuses.
          \<exists>st. statusOfString s = Some st \<and> st \<noteq> WITHDRAWN
             \<and> statusCode (fst (updateApplicationStatus db now (a_id a) (Some s))) = 200
             \<and> a\<lparr>a_status := st, a_updatedAt := now\<rparr>
                 \<in> set (applications (snd (updateApplicationStatus db now (a_id a) (Some s)))))"
proof (intro conjI ballI)
  show "snd (JobSeekerController_withdrawApplication db now user (Some (a_id a))) = db"
    using terminal_seeker_side(1) [OF assms, of now user] .
  show "snd (ApplicationHistoryController_withdrawApplication db now user (Some (a_id a))) = db"
    using terminal_seeker_side(2) [OF assms, of now user] .
  show "a \<in> set (applications (snd (applyForJob db now user jobId body)))"
    using applyForJob_applications [of db now user jobId body] assms(2) by auto
next
  fix s assume "s \<in> set allowedStatuses"
  from updateApplicationStatus_overwrites [OF assms(1,2) this]
  show "\<exists>st. statusOfString s = Some st \<and> st \<noteq> WITHDRAWN
             \<and> statusCode (fst (updateApplicationStatus db now (a_id a) (Some s))) = 200
             \<and> a\<lparr>a_status := st, a_updatedAt := now\<rparr>
                 \<in> set (applications (snd (updateApplicationStatus db now (a_id a) (Some s))))" .
qed

theorem terminal_only_for_seeker_witness:
  "snd (JobSeekerController_withdrawApplication sampleStore 1000 (seekerUserOf 3) (Some 3))
     = sampleStore
   \<and> snd (ApplicationHistoryController_withdrawApplication sampleStore 1000 (seekerUserOf 3)
       (Some 3)) = sampleStore
   \<and> acceptedApp \<in> set (applications (snd (applyForJob sampleStore 1000 (seekerUserOf 3) 1 (Some []))))
   \<and> acceptedApp\<lparr>a_status := REJECTED, a_updatedAt := 1000\<rparr>
       \<in> set (applications (snd (updateApplicationStatus sampleStore 1000 3 (Some ''REJECTED''))))"
  using terminal_only_for_seeker [of sampleStore acceptedApp 1000 "seekerUserOf 3" 1 "Some []"]
  by (simp add: sample_defs allowedStatuses_def statusOfString_def)

theorem updateApplicationStatus_reopens_accepted_counterexample:
  "a_status acceptedApp = ACCEPTED
   \<and> updateApplicationStatus sampleStore 1000 3 (Some ''PENDING'')
     = (respondWith 200 ''Application status updated to PENDING''
          (acceptedApp\<lparr>a_status := PENDING, a_updatedAt := 1000\<rparr>),
        sampleStore\<lparr>applications :=
          [shortlistedApp, pendingApp, acceptedApp\<lparr>a_status := PENDING, a_updatedAt := 1000\<rparr>]\<rparr>)"
  by (simp add: sample_defs updateApplicationStatus_def allowedStatuses_def statusOfString_def)

subsection \<open>Applying once\<close>

lemma find_filter_hd:
  "find P xs = (case filter P xs of [] \<Rightarrow> None | x # ys \<Rightarrow> Some x)"
  by (induction xs) auto

lemma applyForJob_pairs_distinct:
  assumes "distinct (map (\<lambda>a. (a_jobId a, a_seekerId a)) (applications db))"
  shows "distinct (map (\<lambda>a. (a_jobId a, a_seekerId a))
           (applications (snd (applyForJob db now user jobId body))))"
proof -
  from applyForJob_applications [of db now user jobId body]
  show ?thesis
  proof
    assume "applications (snd (applyForJob db now user jobId body)) = applications db"
    with assms show ?thesis by simp
  next
    assume "\<exists>new. applications (snd (applyForJob db now user jobId body)) = applications db @ [new]
          \<and> a_jobId new = jobId \<and> Some (a_seekerId new) = u_jobSeekerId user
          \<and> \<not> (\<exists>a\<in>set (applications db). a_jobId a = jobId \<and> a_seekerId a = a_seekerId new)"
    then obtain new where new:
      "applications (snd (applyForJob db now user jobId body)) = applications db @ [new]"
      "a_jobId new = jobId"
      "\<not> (\<exists>a\<in>set (applications db). a_jobId a = jobId \<and> a_seekerId a = a_seekerId new)"
      by blast
    from new(2,3) have "(a_jobId new, a_seekerId new)
        \<notin> set (map (\<lambda>a. (a_jobId a, a_seekerId a)) (applications db))" by auto
    with assms new(1) show ?thesis by simp
  qed
qed

lemma applyForJob_existing:
  assumes "u_jobSeekerId user = Some sid" and "sid \<noteq> 0"
    and "\<exists>a\<in>set (applications db). a_jobId a = jobId \<and> a_seekerId a = sid"
  shows "snd (applyForJob db now user jobId body) = db"
    and "\<exists>j\<in>set (jobs db). j_id j = jobId \<and> j_status j = ACTIVE \<Longrightarrow>
           applyForJob db now user jobId (Some rs)
             = (respond 400 ''You have already applied for this job'', db)"
proof -
  from assms(3) obtain y where
    y: "find (\<lambda>a. a_jobId a = jobId \<and> a_seekerId a = sid) (applications db) = Some y"
    using find_ex_Some [of "applications db" "\<lambda>a. a_jobId a = jobId \<and> a_seekerId a = sid"]
    by auto
  with assms(1,2) show "snd (applyForJob db now user jobId body) = db"
    by (auto simp: applyForJob_def split: option.splits)
  assume "\<exists>j\<in>set (jobs db). j_id j = jobId \<and> j_status j = ACTIVE"
  then obtain j where "find (\<lambda>j. j_id j = jobId \<and> j_status j = ACTIVE) (jobs db) = Some j"
    using find_ex_Some [of "jobs db" "\<lambda>j. j_id j = jobId \<and> j_status j = ACTIVE"] by auto
  with y assms(1,2)
  show "applyForJob db now user jobId (Some rs)
          = (respond 400 ''You have already applied for this job'', db)"
    by (simp add: applyForJob_def)
qed

text \<open>
  C3, as the code has it. \<^verbatim>\<open>applyForJob\<close> keeps the (jobId, seekerId) pairs of the
  applications distinct. When the caller already has an application for the job, the
  store is left unchanged, and for an active job the answer is status 400 with the
  message "You have already applied for this job" (the handler does not use 409).
\<close>

theorem apply_at_most_once:
  assumes "u_jobSeekerId user = Some sid" and "sid \<noteq> 0"
  shows "(distinct (map (\<lambda>a. (a_jobId a, a_seekerId a)) (applications db)) \<longrightarrow>
            distinct (map (\<lambda>a. (a_jobId a, a_seekerId a))
              (applications (snd (applyForJob db now user jobId body)))))
    \<and> ((\<exists>a\<in>set (applications db). a_jobId a = jobId \<and> a_seekerId a = sid) \<longrightarrow>
          snd (applyForJob db now user jobId body) = db
        \<and> ((\<exists>j\<in>set (jobs db). j_id j = jobId \<and> j_status j = ACTIVE) \<longrightarrow>
              applyForJob db now user jobId (Some rs)
                = (respond 400 ''You have already applied for this job'', db)))"
  using applyForJob_pairs_distinct [of db now user jobId body]
        applyForJob_existing [OF assms, of db jobId now]
  by blast

theorem apply_at_most_once_witness:
  "distinct (map (\<lambda>a. (a_jobId a, a_seekerId a))
      (applications (snd (applyForJob sampleStore 1000 (seekerUserOf 9) 1 (Some sampleAnswers)))))
   \<and> length (applications (snd (applyForJob sampleStore 1000 (seekerUserOf 9) 1 (Some sampleAnswers)))) = 4
   \<and> applyForJob sampleStore 1000 (seekerUserOf 2) 1 (Some sampleAnswers)
       = (respond 400 ''You have already applied for this job'', sampleStore)"
  using apply_at_most_once [of "seekerUserOf 9" 9 sampleStore 1000 1 "Some sampleAnswers" sampleAnswers]
        apply_at_most_once [of "seekerUserOf 2" 2 sampleStore 1000 1 "Some sampleAnswers" sampleAnswers]
  by (simp add: sample_defs sampleAnswers_def applyForJob_def applicationCreateOk_def
        respondWith_def Let_def)

theorem second_apply_is_400_counterexample:
  "a_jobId pendingApp = 1 \<and> a_seekerId pendingApp = 2
   \<and> applyForJob sampleStore 1000 (seekerUserOf 2) 1 (Some sampleAnswers)
       = (respond 400 ''You have already applied for this job'', sampleStore)
   \<and> statusCode (fst (applyForJob sampleStore 1000 (seekerUserOf 2) 1 (Some sampleAnswers))) \<noteq> 409"
  by (simp add: sample_defs sampleAnswers_def applyForJob_def respond_def)

subsection \<open>Required fields of an application\<close>

lemma applyForJob_missing:
  assumes "u_jobSeekerId user = Some sid" and "sid \<noteq> 0"
    and "\<exists>j\<in>set (jobs db). j_id j = jobId \<and> j_status j = ACTIVE"
    and "\<not> (\<exists>a\<in>set (applications db). a_jobId a = jobId \<and> a_seekerId a = sid)"
  shows "applyForJob db now user jobId (Some rs) =
     (case find (\<lambda>f. f_id f \<notin> set (map ri_fieldId rs))
             (filter f_isRequired (filter (\<lambda>f. f_jobId f = jobId) (formFields db))) of
        Some field \<Rightarrow> (respond 400 (missingMessage (f_label field)), db)
      | None \<Rightarrow>
          if applicationCreateOk db jobId sid rs
          then (respondWith 201 ''Application submitted successfully''
                  (\<lparr>a_id = applicationSeq db, a_jobId = jobId, a_seekerId = sid,
                     a_status = PENDING, a_appliedAt = now, a_updatedAt = now\<rparr>,
                   newResponses (applicationSeq db) (responseSeq db) rs),
                db\<lparr>applications := applications db @
                       [\<lparr>a_id = applicationSeq db, a_jobId = jobId, a_seekerId = sid,
                          a_status = PENDING, a_appliedAt = now, a_updatedAt = now\<rparr>],
                   responses := responses db
                       @ newResponses (applicationSeq db) (responseSeq db) rs,
                   applicationSeq := applicationSeq db + 1,
                   responseSeq := responseSeq db + int (length rs)\<rparr>)
          else (respond 500 ''Failed to submit application'', db))"
proof -
  from assms(3) obtain j where
    j: "find (\<lambda>j. j_id j = jobId \<and> j_status j = ACTIVE) (jobs db) = Some j"
    using find_ex_Some [of "jobs db" "\<lambda>j. j_id j = jobId \<and> j_status j = ACTIVE"] by auto
  from assms(4) have
    n: "find (\<lambda>a. a_jobId a = jobId \<and> a_seekerId a = sid) (applications db) = None"
    by (auto simp: find_None_iff_no)
  show ?thesis using assms(1,2) j n
    by (simp add: applyForJob_def Let_def split: option.splits)
qed

text \<open>
  C4, as the code has it. For a caller with a seeker profile, an active job and no earlier
  application of the caller: \<open>missing\<close> are the job's required fields, in the order of the
  form, that no submitted response names. If there is one, the answer is 400 and names
  the label of the first, and nothing is written; if there is none, the answer is not
  400, and the application is created (status PENDING, one response row per entry)
  provided the submitted field ids are pairwise distinct and each is the id of a form
  field - the conditions under which the store accepts the rows.
\<close>

theorem apply_required_fields:
  assumes "u_jobSeekerId user = Some sid" and "sid \<noteq> 0"
    and "\<exists>j\<in>set (jobs db). j_id j = jobId \<and> j_status j = ACTIVE"
    and "\<not> (\<exists>a\<in>set (applications db). a_jobId a = jobId \<and> a_seekerId a = sid)"
    and "missing = filter (\<lambda>f. f_id f \<notin> set (map ri_fieldId rs))
                     (filter f_isRequired (filter (\<lambda>f. f_jobId f = jobId) (formFields db)))"
  shows "(missing \<noteq> [] \<longrightarrow>
            applyForJob db now user jobId (Some rs)
              = (respond 400 (missingMessage (f_label (hd missing))), db))
    \<and> (missing = [] \<longrightarrow> statusCode (fst (applyForJob db now user jobId (Some rs))) \<noteq> 400)
    \<and> (missing = [] \<and> distinct (map ri_fieldId rs)
          \<and> (\<forall>r\<in>set rs. \<exists>f\<in>set (formFields db). f_id f = ri_fieldId r) \<longrightarrow>
            statusCode (fst (applyForJob db now user jobId (Some rs))) = 201
          \<and> applications (snd (applyForJob db now user jobId (Some rs)))
              = applications db @
                  [\<lparr>a_id = applicationSeq db, a_jobId = jobId, a_seekerId = sid,
                     a_status = PENDING, a_appliedAt = now, a_updatedAt = now\<rparr>]
          \<and> responses (snd (applyForJob db now user jobId (Some rs)))
              = responses db @ newResponses (applicationSeq db) (responseSeq db) rs)"
proof (intro conjI impI)
  note eq = applyForJob_missing [OF assms(1-4), of now rs]
  let ?find = "find (\<lambda>f. f_id f \<notin> set (map ri_fieldId rs))
                 (filter f_isRequired (filter (\<lambda>f. f_jobId f = jobId) (formFields db)))"
  {
    assume "missing \<noteq> []"
    then have "?find = Some (hd missing)"
      unfolding assms(5) by (simp add: find_filter_hd split: list.splits)
    then show "applyForJob db now user jobId (Some rs)
              = (respond 400 (missingMessage (f_label (hd missing))), db)"
      using eq by simp
  }
  {
    assume "missing = []"
    then have none: "?find = None"
      unfolding assms(5) by (simp add: find_filter_hd split: list.splits)
    then show "statusCode (fst (applyForJob db now user jobId (Some rs))) \<noteq> 400"
      using eq by (simp add: respond_def respondWith_def)
  }
  {
    assume a: "missing = [] \<and> distinct (map ri_fieldId rs)
          \<and> (\<forall>r\<in>set rs. \<exists>f\<in>set (formFields db). f_id f = ri_fieldId r)"
    then have none: "?find = None"
      unfolding assms(5) by (simp add: find_filter_hd split: list.splits)
    from a assms(4) have ok: "applicationCreateOk db jobId sid rs"
      by (simp add: applicationCreateOk_def)
    from eq none ok
    show "statusCode (fst (applyForJob db now user jobId (Some rs))) = 201"
      and "applications (snd (applyForJob db now user jobId (Some rs)))
              = applications db @
                  [\<lparr>a_id = applicationSeq db, a_jobId = jobId, a_seekerId = sid,
                     a_status = PENDING, a_appliedAt = now, a_updatedAt = now\<rparr>]"
      and "responses (snd (applyForJob db now user jobId (Some rs)))
              = responses db @ newResponses (applicationSeq db) (responseSeq db) rs"
      by (simp_all add: respondWith_def)
  }
qed

theorem apply_required_fields_witness:
  "applyForJob sampleStore 1000 (seekerUserOf 9) 1 (Some [\<lparr>ri_fieldId = 2, ri_answer = ''x''\<rparr>])
     = (respond 400 (missingMessage ''Full Name''), sampleStore)
   \<and> statusCode (fst (applyForJob sampleStore 1000 (seekerUserOf 9) 1 (Some sampleAnswers))) = 201
   \<and> applications (snd (applyForJob sampleStore 1000 (seekerUserOf 9) 1 (Some sampleAnswers)))
       = [shortlistedApp, pendingApp, acceptedApp,
          \<lparr>a_id = 4, a_jobId = 1, a_seekerId = 9, a_status = PENDING,
            a_appliedAt = 1000, a_updatedAt = 1000\<rparr>]"
  using apply_required_fields [of "seekerUserOf 9" 9 sampleStore 1 _
          "[\<lparr>ri_fieldId = 2, ri_answer = ''x''\<rparr>]" 1000, OF _ _ _ _ refl]
        apply_required_fields [of "seekerUserOf 9" 9 sampleStore 1 _ sampleAnswers 1000,
          OF _ _ _ _ refl]
  by (simp add: sample_defs sampleAnswers_def)

theorem apply_duplicate_answers_counterexample:
  "map f_id (filter f_isRequired (formFields sampleStore)) = [1, 2]
   \<and> map ri_fieldId duplicateAnswers = [1, 1, 2]
   \<and> applyForJob sampleStore 1000 (seekerUserOf 9) 1 (Some duplicateAnswers)
       = (respond 500 ''Failed to submit application'', sampleStore)"
  by (simp add: sample_defs duplicateAnswers_def applyForJob_def applicationCreateOk_def)

subsection \<open>Company names\<close>








text \<open>
  A submitted name with a pattern character is matched as a pattern: beside the active
  company Nimbus, the names \<^verbatim>\<open>N_mbus\<close> and \<^verbatim>\<open>nim%\<close> are answered 409 with Nimbus as the
  suggestion, and a name that ends in a backslash is answered 500.
\<close>

lemma createCompany_pattern_name:
  "createCompany sampleStore 1000 userF (Some (companyNamed ''N_mbus''))
     = (respondWith 409 ''A company with this name already exists''
          (Suggestion 1 ''Nimbus''), sampleStore)
   \<and> createCompany sampleStore 1000 userF (Some (companyNamed ''nim%''))
     = (respondWith 409 ''A company with this name already exists''
          (Suggestion 1 ''Nimbus''), sampleStore)
   \<and> createCompany sampleStore 1000 userF (Some (companyNamed [CHR ''N'', CHR 0x5C]))
     = (respond 500 ''Internal server error'', sampleStore)"
  by (simp add: sample_defs companyNamed_def createCompany_def trim_def isSpace_def
        ilike_def lowerChar_def inInt4_def)




subsection \<open>Completion percentage\<close>

lemma percentOf_sixths_values:
  "percentOf 0 6 = Num 0" "percentOf 1 6 = Num 17" "percentOf 2 6 = Num 33"
  "percentOf 3 6 = Num 50" "percentOf 4 6 = Num 67" "percentOf 5 6 = Num 83"
  "percentOf 6 6 = Num 100"
  by code_simp+

lemma roundNearest_sixths_values:
  "roundNearest (100 * 0 / 6) = 0" "roundNearest (100 * 1 / 6) = 17"
  "roundNearest (100 * 2 / 6) = 33" "roundNearest (100 * 3 / 6) = 50"
  "roundNearest (100 * 4 / 6) = 67" "roundNearest (100 * 5 / 6) = 83"
  "roundNearest (100 * 6 / 6) = 100"
  by (simp_all add: roundNearest_def floor_unique)

lemma percentOf_sixths:
  assumes "c \<le> 6"
  shows "percentOf c 6 = Num (of_int (roundNearest (100 * of_nat c / 6)))"
proof -
  from assms have "c = 0 \<or> c = 1 \<or> c = 2 \<or> c = 3 \<or> c = 4 \<or> c = 5 \<or> c = 6" by arith
  then show ?thesis
    using percentOf_sixths_values roundNearest_sixths_values by (elim disjE) simp_all
qed

lemma seekerSections_length: "length (seekerSections user) = 6"
  by (simp add: seekerSections_def)

lemma seeker_completed_le: "length (filter (\<lambda>b. b) (seekerSections user)) \<le> 6"
  using length_filter_le [of "\<lambda>b. b" "seekerSections user"]
  by (simp add: seekerSections_length)

text \<open>
  C5, as the code has it. For a job seeker the percentage is
  round(100 * completed / 6) over the six sections, computed in double arithmetic, which
  gives the exactly rounded value for each of the seven counts. For an employer the
  percentage is not computed from a count: it is the constant 0, 33, 66 or 100 that goes
  with the first incomplete step (basic details, employer profile, company selection).
\<close>

theorem completion_percentage:
  "payload (checkProfileStatus_jobSeeker True (Some user)) \<noteq> None
   \<and> ss_totalSections (the (payload (checkProfileStatus_jobSeeker True (Some user)))) = 6
   \<and> ss_sectionsCompleted (the (payload (checkProfileStatus_jobSeeker True (Some user))))
       = length (filter (\<lambda>b. b) (seekerSections user))
   \<and> ss_completionPercentage (the (payload (checkProfileStatus_jobSeeker True (Some user))))
       = Num (of_int (roundNearest
                (100 * of_nat (length (filter (\<lambda>b. b) (seekerSections user))) / 6)))
   \<and> payload (checkProfileStatus_employer True (Some eu)) \<noteq> None
   \<and> es_nextStep (the (payload (checkProfileStatus_employer True (Some eu))))
       = (if \<not> es_basicDetailsComplete (the (payload (checkProfileStatus_employer True (Some eu))))
          then ''basic_details''
          else if \<not> es_employerProfileComplete
                      (the (payload (checkProfileStatus_employer True (Some eu))))
          then ''employer_profile''
          else if \<not> es_companySelected (the (payload (checkProfileStatus_employer True (Some eu))))
          then ''company_selection''
          else ''complete'')
   \<and> es_completionPercentage (the (payload (checkProfileStatus_employer True (Some eu))))
       = (if es_nextStep (the (payload (checkProfileStatus_employer True (Some eu))))
               = ''basic_details'' then Num 0
          else if es_nextStep (the (payload (checkProfileStatus_employer True (Some eu))))
               = ''employer_profile'' then Num 33
          else if es_nextStep (the (payload (checkProfileStatus_employer True (Some eu))))
               = ''company_selection'' then Num 66
          else Num 100)"
proof (intro conjI)
  show "ss_completionPercentage (the (payload (checkProfileStatus_jobSeeker True (Some user))))
       = Num (of_int (roundNearest
                (100 * of_nat (length (filter (\<lambda>b. b) (seekerSections user))) / 6)))"
    using percentOf_sixths [OF seeker_completed_le [of user]]
    by (simp add: checkProfileStatus_jobSeeker_def respondWith_def Let_def seekerSections_length)
qed (simp_all add: checkProfileStatus_jobSeeker_def checkProfileStatus_employer_def
       respondWith_def Let_def seekerSections_length)

theorem completion_percentage_witness:
  "ss_sectionsCompleted (the (payload (checkProfileStatus_jobSeeker True (Some seekerFourSections)))) = 4
   \<and> ss_completionPercentage (the (payload (checkProfileStatus_jobSeeker True (Some seekerFourSections))))
       = Num 67
   \<and> es_nextStep (the (payload (checkProfileStatus_employer True (Some employerNoCompany))))
       = ''company_selection''
   \<and> es_completionPercentage (the (payload (checkProfileStatus_employer True (Some employerNoCompany))))
       = Num 66"
  using completion_percentage [of seekerFourSections employerNoCompany]
  by (simp add: seekerFourSections_def employerNoCompany_def seekerSections_def truthyStr_def
        roundNearest_def floor_unique checkProfileStatus_employer_def respondWith_def Let_def)

theorem employer_percentage_counterexample:
  "es_basicDetailsComplete (the (payload (checkProfileStatus_employer True (Some employerNoCompany))))
   \<and> es_employerProfileComplete (the (payload (checkProfileStatus_employer True (Some employerNoCompany))))
   \<and> \<not> es_companySelected (the (payload (checkProfileStatus_employer True (Some employerNoCompany))))
   \<and> es_completionPercentage (the (payload (checkProfileStatus_employer True (Some employerNoCompany))))
       = Num 66
   \<and> roundNearest (100 * 2 / 3) = 67"
  by (simp add: employerNoCompany_def checkProfileStatus_employer_def respondWith_def Let_def
        truthyStr_def roundNearest_def floor_unique)

subsection \<open>Rounding error of double arithmetic\<close>

lemma bitlen_rat_bounds:
  assumes "0 < (a::int)"
  shows "(2::rat) powi (bitlen a - 1) \<le> of_int a" and "of_int a < (2::rat) powi (bitlen a)"
proof -
  from bitlen_bounds [OF assms] have lo: "2 ^ nat (bitlen a - 1) \<le> a" and hi: "a < 2 ^ nat (bitlen a)"
    by simp_all
  have ge1: "1 \<le> bitlen a" using assms by (simp add: bitlen_alt_def)
  have "(2::rat) powi (bitlen a - 1) = 2 ^ nat (bitlen a - 1)"
    using ge1 by (simp add: power_int_nonneg_exp)
  also have "\<dots> = of_int (2 ^ nat (bitlen a - 1))" by simp
  also have "\<dots> \<le> of_int a" using lo by (simp only: of_int_le_iff)
  finally show "(2::rat) powi (bitlen a - 1) \<le> of_int a" .
  have "of_int a < (of_int (2 ^ nat (bitlen a)) :: rat)" using hi by (simp only: of_int_less_iff)
  also have "\<dots> = 2 ^ nat (bitlen a)" by simp
  also have "\<dots> = (2::rat) powi (bitlen a)"
    using ge1 by (simp add: power_int_nonneg_exp)
  finally show "of_int a < (2::rat) powi (bitlen a)" .
qed

lemma binade_bounds:
  assumes "0 < q"
  shows "2 powi (binade q) \<le> q" and "q < 2 powi (binade q + 1)"
proof -
  obtain a b where ab: "quotient_of q = (a, b)" by (cases "quotient_of q")
  then have b: "0 < b" and q: "q = of_int a / of_int b"
    by (simp_all add: quotient_of_denom_pos quotient_of_div)
  have a: "0 < a"
  proof (rule ccontr)
    assume "\<not> 0 < a"
    then have "of_int a / (of_int b :: rat) \<le> 0" using b by (simp add: divide_le_0_iff)
    with q assms show False by simp
  qed
  let ?k = "bitlen a - bitlen b"
  note A = bitlen_rat_bounds [OF a] and B = bitlen_rat_bounds [OF b]
  have bpos: "0 < (of_int b :: rat)" using b by simp
  have apos: "0 < (of_int a :: rat)" using a by simp
  have up: "q < 2 powi (?k + 1)"
  proof -
    have "q < 2 powi (bitlen a) / 2 powi (bitlen b - 1)"
      unfolding q using A(2) B(1) apos
      by (intro frac_less) (simp_all add: less_imp_le)
    also have "\<dots> = 2 powi (bitlen a - (bitlen b - 1))" by (simp add: power_int_diff)
    also have "bitlen a - (bitlen b - 1) = ?k + 1" by simp
    finally show ?thesis .
  qed
  have low: "2 powi (?k - 1) < q"
  proof -
    have "(2::rat) powi (?k - 1) = 2 powi (bitlen a - 1 - bitlen b)" by (simp add: algebra_simps)
    also have "\<dots> = 2 powi (bitlen a - 1) / 2 powi (bitlen b)" by (simp add: power_int_diff)
    also have "\<dots> < of_int a / of_int b"
      using A(1) B(2) bpos by (intro frac_less2) simp_all
    finally show ?thesis unfolding q .
  qed
  show "2 powi (binade q) \<le> q"
    using low ab by (simp add: binade_def)
  show "q < 2 powi (binade q + 1)"
    using up ab by (auto simp: binade_def not_le)
qed

lemma roundHalfEven_error: "\<bar>of_int (roundHalfEven s) - s\<bar> \<le> 1 / 2"
proof -
  have "of_int \<lfloor>s\<rfloor> \<le> s" "s < of_int \<lfloor>s\<rfloor> + 1" by linarith+
  then show ?thesis by (auto simp: roundHalfEven_def)
qed

lemma two_powi_less_imp: "(2::rat) powi m < 2 powi n \<Longrightarrow> m < n"
proof (rule ccontr)
  assume lt: "(2::rat) powi m < 2 powi n" and "\<not> m < n"
  then have "n \<le> m" by simp
  then have "(2::rat) powi n \<le> 2 powi m" by (intro power_int_increasing) simp_all
  with lt show False by simp
qed

lemma toDouble_error:
  assumes lo: "2 powi (- 1022) \<le> q" and hi: "q < 2 powi 1023"
  shows "\<exists>v. toDouble q = Num v \<and> \<bar>v - q\<bar> \<le> q / 2 ^ 53"
proof -
  have pos: "0 < q"
  proof -
    have "(0::rat) < 2 powi (- 1022)" by (rule zero_less_power_int) simp
    with lo show ?thesis by linarith
  qed
  note bb = binade_bounds [OF pos]
  have bn: "- 1022 \<le> binade q"
  proof -
    from lo bb(2) have "(2::rat) powi (- 1022) < 2 powi (binade q + 1)" by linarith
    from two_powi_less_imp [OF this] show ?thesis by simp
  qed
  have bu: "binade q \<le> 1022"
  proof -
    from hi bb(1) have "(2::rat) powi (binade q) < 2 powi 1023" by linarith
    from two_powi_less_imp [OF this] show ?thesis by simp
  qed
  define e where "e = binade q - 52"
  define m where "m = roundHalfEven (q / 2 powi e)"
  have epos: "(0::rat) < 2 powi e" by (rule zero_less_power_int) simp
  have emax: "max (binade \<bar>q\<bar> - 52) (- 1074) = e" using bn pos by (simp add: e_def)
  have e970: "e \<le> 970" using bu by (simp add: e_def)
  have td: "toDouble q = Num (of_int m * 2 powi e)"
  proof -
    have "\<not> (971 < e \<or> (e = 971 \<and> 2 ^ 53 \<le> m))" using e970 by simp
    moreover have "q \<noteq> 0" "\<bar>q\<bar> = q" "sgn q = 1" using pos by simp_all
    ultimately show ?thesis
      unfolding toDouble_def Let_def emax m_def by simp
  qed
  have "\<bar>of_int m * 2 powi e - q\<bar> = \<bar>of_int m - q / 2 powi e\<bar> * 2 powi e"
  proof -
    have "of_int m * 2 powi e - q = (of_int m - q / 2 powi e) * 2 powi e"
      using epos by (simp add: field_simps)
    then show ?thesis using epos by (simp add: abs_mult)
  qed
  also have "\<dots> \<le> 1 / 2 * 2 powi e"
    using roundHalfEven_error [of "q / 2 powi e"] epos
    unfolding m_def by (intro mult_right_mono) simp_all
  also have "\<dots> = 2 powi (binade q) / 2 ^ 53"
  proof -
    have "(2::rat) powi (binade q) = 2 powi (e + 52)" by (simp add: e_def)
    also have "\<dots> = 2 powi e * 2 powi 52" by (simp add: power_int_add)
    finally show ?thesis by simp
  qed
  also have "\<dots> \<le> q / 2 ^ 53" using bb(1) by (simp add: divide_right_mono)
  finally show ?thesis using td by blast
qed

lemma tiny_le: "(2::rat) powi (- 1022) \<le> 1 / 2 ^ 53"
proof -
  have "(2::rat) powi (- 1022) \<le> 2 powi (- 53)" by (intro power_int_increasing) simp_all
  also have "\<dots> = 1 / 2 ^ 53" by (simp add: power_int_minus_divide)
  finally show ?thesis .
qed

lemma huge_ge: "(256::rat) \<le> 2 powi 1023"
proof -
  have "(2::rat) powi 8 \<le> 2 powi 1023" by (intro power_int_increasing) simp_all
  then show ?thesis by simp
qed

lemma percentOf_bounds:
  assumes c: "0 < c" and ct: "c \<le> t" and t: "t < 2 ^ 53"
  shows "\<exists>p. percentOf c t = Num (of_int p) \<and> 0 \<le> p \<and> p \<le> 100
            \<and> \<bar>(of_int p :: rat) - 100 * of_nat c / of_nat t\<bar> \<le> 1 / 2 + 1 / 2 ^ 45"
proof -
  define eps :: rat where "eps = 1 / 2 ^ 53"
  define q1 :: rat where "q1 = of_nat c / of_nat t"
  have eps_pos: "0 < eps" by (simp add: eps_def)
  have eps_small: "201 * eps \<le> 1 / 2 ^ 45" "eps \<le> 1 / 2" "eps \<le> 1 / 100"
    by (simp_all add: eps_def)
  have tiny: "2 powi (- 1022) \<le> eps" using tiny_le by (simp add: eps_def)
  have tpos: "0 < (of_nat t :: rat)" using c ct by simp
  have q1_le: "q1 \<le> 1" using ct tpos by (simp add: q1_def)
  have t_le: "(of_nat t :: rat) \<le> 2 ^ 53"
  proof -
    have "(of_nat t :: rat) \<le> of_nat (2 ^ 53)" using t by (simp only: of_nat_le_iff less_imp_le)
    then show ?thesis by simp
  qed
  have q1_ge: "eps \<le> q1"
  proof -
    have "1 / 2 ^ 53 \<le> 1 / (of_nat t :: rat)" using tpos t_le by (intro divide_left_mono) simp_all
    also have "\<dots> \<le> q1" using c tpos by (simp add: q1_def divide_right_mono)
    finally show ?thesis by (simp add: eps_def)
  qed
  have q1_pos: "0 < q1" using q1_ge eps_pos by linarith
  have "2 powi (- 1022) \<le> q1" using tiny q1_ge by linarith
  moreover have "q1 < 2 powi 1023" using huge_ge q1_le by linarith
  ultimately obtain x where x1: "toDouble q1 = Num x" and "\<bar>x - q1\<bar> \<le> q1 / 2 ^ 53"
    using toDouble_error by blast
  then have x2: "\<bar>x - q1\<bar> \<le> q1 * eps" by (simp add: eps_def)
  have q1_eps: "q1 * eps \<le> 1 * eps" using q1_le eps_pos by (intro mult_right_mono) simp_all
  have q1_half: "q1 * eps \<le> q1 * (1 / 2)" using q1_pos eps_small(2) by (intro mult_left_mono) simp_all
  have x_lo: "q1 / 2 \<le> x" using x2 q1_half by linarith
  have x_hi: "x \<le> 1 + eps" using x2 q1_eps q1_le by linarith
  define q2 where "q2 = x * 100"
  have q2_lo: "eps \<le> q2" using x_lo q1_ge eps_pos unfolding q2_def by linarith
  have q2_hi: "q2 \<le> 101" using x_hi eps_small(3) unfolding q2_def by linarith
  have "2 powi (- 1022) \<le> q2" using tiny q2_lo by linarith
  moreover have "q2 < 2 powi 1023" using huge_ge q2_hi by linarith
  ultimately obtain y where y1: "toDouble q2 = Num y" and "\<bar>y - q2\<bar> \<le> q2 / 2 ^ 53"
    using toDouble_error by blast
  then have y2: "\<bar>y - q2\<bar> \<le> q2 * eps" by (simp add: eps_def)
  have q2_pos: "0 < q2" using q2_lo eps_pos by linarith
  have q2_eps: "q2 * eps \<le> 101 * eps" using q2_hi eps_pos by (intro mult_right_mono) simp_all
  have q2_half: "q2 * eps \<le> q2 * (1 / 2)" using q2_pos eps_small(2) by (intro mult_left_mono) simp_all
  have y_pos: "0 < y" using y2 q2_half q2_pos by linarith
  have d1: "\<bar>q2 - 100 * q1\<bar> \<le> 100 * eps"
  proof -
    have e1: "q2 - 100 * q1 = 100 * (x - q1)" by (simp add: q2_def algebra_simps)
    have "\<bar>q2 - 100 * q1\<bar> = \<bar>100 * (x - q1)\<bar>" by (simp only: e1)
    also have "\<dots> = 100 * \<bar>x - q1\<bar>" by (simp only: abs_mult abs_numeral)
    also have "\<dots> \<le> 100 * (q1 * eps)" using x2 by (intro mult_left_mono) simp_all
    also have "\<dots> \<le> 100 * (1 * eps)" using q1_eps by (intro mult_left_mono) simp_all
    finally show ?thesis by simp
  qed
  have d2: "\<bar>y - 100 * q1\<bar> \<le> 1 / 2 ^ 45"
  proof -
    have "\<bar>y - 100 * q1\<bar> \<le> \<bar>y - q2\<bar> + \<bar>q2 - 100 * q1\<bar>" by linarith
    also have "\<dots> \<le> 201 * eps" using y2 q2_eps d1 by linarith
    finally show ?thesis using eps_small(1) by linarith
  qed
  define p where "p = \<lfloor>y + 1 / 2\<rfloor>"
  have fl: "of_int p \<le> y + 1 / 2" "y + 1 / 2 < of_int p + 1" unfolding p_def by linarith+
  have pct: "percentOf c t = Num (of_int p)"
  proof -
    have "of_nat t \<noteq> (0::rat)" using tpos by simp
    then have "jsDiv (Num (of_nat c)) (Num (of_nat t)) = Num x"
      using x1 by (simp add: q1_def)
    then show ?thesis using y1 by (simp add: percentOf_def q2_def p_def)
  qed
  define d :: rat where "d = 1 / 2 ^ 45"
  have d_small: "d \<le> 1 / 4" by (simp add: d_def)
  have d2': "\<bar>y - 100 * q1\<bar> \<le> d" using d2 by (simp add: d_def)
  have p0: "0 \<le> p"
  proof -
    have "(0::rat) < of_int (p + 1)" using fl(2) y_pos by simp
    then have "0 < p + 1" by (simp only: of_int_0_less_iff)
    then show ?thesis by simp
  qed
  have p100: "p \<le> 100"
  proof -
    have "y \<le> 100 + 1 / 4" using d2' q1_le d_small by linarith
    then have "of_int p < (of_int 101 :: rat)" using fl(1) by simp
    then have "p < 101" by (simp only: of_int_less_iff)
    then show ?thesis by simp
  qed
  have err: "\<bar>(of_int p :: rat) - 100 * of_nat c / of_nat t\<bar> \<le> 1 / 2 + 1 / 2 ^ 45"
  proof -
    have e: "100 * of_nat c / (of_nat t :: rat) = 100 * q1" by (simp add: q1_def)
    have "\<bar>of_int p - 100 * q1\<bar> \<le> 1 / 2 + d" using fl d2' by linarith
    then show ?thesis unfolding e d_def .
  qed
  from pct p0 p100 err show ?thesis by blast
qed

lemma percentOf_near_round:
  assumes c: "0 < c" and ct: "c \<le> t" and t: "t < 2 ^ 53"
  shows "\<exists>p. percentOf c t = Num (of_int p) \<and> 0 \<le> p \<and> p \<le> 100
            \<and> \<bar>(of_int p :: rat) - 100 * of_nat c / of_nat t\<bar> \<le> 1 / 2 + 1 / 2 ^ 45
            \<and> \<bar>p - roundNearest (100 * of_nat c / of_nat t)\<bar> \<le> 1"
proof -
  from percentOf_bounds [OF assms] obtain p where p: "percentOf c t = Num (of_int p)"
    "0 \<le> p" "p \<le> 100"
    "\<bar>(of_int p :: rat) - 100 * of_nat c / of_nat t\<bar> \<le> 1 / 2 + 1 / 2 ^ 45" by blast
  define X :: rat where "X = 100 * of_nat c / of_nat t"
  define r where "r = roundNearest X"
  define d :: rat where "d = 1 / 2 ^ 45"
  have d_small: "d \<le> 1 / 4" by (simp add: d_def)
  have r: "of_int r \<le> X + 1 / 2" "X + 1 / 2 < of_int r + 1"
    unfolding r_def roundNearest_def by linarith+
  have pX: "\<bar>of_int p - X\<bar> \<le> 1 / 2 + d" using p(4) unfolding X_def d_def .
  have "(of_int p :: rat) - of_int r < 2" using r pX d_small by linarith
  then have "(of_int (p - r) :: rat) < of_int 2" by simp
  then have up: "p - r < 2" by (simp only: of_int_less_iff)
  have "(of_int r :: rat) - of_int p < 2" using r pX d_small by linarith
  then have "(of_int (r - p) :: rat) < of_int 2" by simp
  then have lo: "r - p < 2" by (simp only: of_int_less_iff)
  from up lo have "\<bar>p - r\<bar> \<le> 1" by linarith
  with p show ?thesis unfolding r_def X_def by blast
qed

subsection \<open>Status distribution\<close>

lemma groupByStatus_counts:
  assumes "g \<in> set (groupByStatus apps)"
  shows "0 < snd g \<and> snd g \<le> length apps"
proof -
  from assms obtain s where "g = (s, length (filter (\<lambda>a. a_status a = s) apps))" "0 < snd g"
    by (auto simp: groupByStatus_def)
  then show ?thesis using length_filter_le [of "\<lambda>a. a_status a = s" apps] by simp
qed

lemma groupByStatus_empty: "groupByStatus [] = []"
  by (simp add: groupByStatus_def allStatuses_def)

text \<open>
  The doubles behind 23 applications of 40: the quotient is the double just below 0.575
  (0.57499999999999995559...), its product with 100 is the double just below 57.5
  (57.49999999999999289...), and \<^verbatim>\<open>Math.round\<close> of that is 57.
\<close>

lemma doubles_of_23_in_40:
  "jsDiv (Num 23) (Num 40) = Num (2589569785738035 / 2 ^ 52)"
  "jsMul (Num (2589569785738035 / 2 ^ 52)) (Num 100) = Num (8092405580431359 / 2 ^ 47)"
  "mathRound (Num (8092405580431359 / 2 ^ 47)) = Num 57"
  by code_simp+

lemma busy_dashboard:
  "getDashboardStats busyStore userE
     = respondWith 200 ''Dashboard statistics retrieved successfully''
         ([\<lparr>b_status = PENDING, b_count = 23, b_percentage = Num 57\<rparr>,
           \<lparr>b_status = REVIEWING, b_count = 17, b_percentage = Num 43\<rparr>], 40)"
  by code_simp

lemma busy_total: "length (employerApplications busyStore 1 1) = 40"
  by code_simp

lemma quiet_dashboard:
  "getDashboardStats quietStore userE
     = respondWith 200 ''Dashboard statistics retrieved successfully'' ([], 0)"
  by code_simp

text \<open>
  C9, as the code has it. The status distribution is computed for every store and is
  never NaN: with no applications there are no groups, so the distribution is empty; with
  applications, each group's percentage is an integer between 0 and 100, the result of
  \<^verbatim>\<open>Math.round\<close> on the double \<^verbatim>\<open>(count / total) * 100\<close>. That double is within 2^-45 of
  100 * count / total, so the percentage is within 1 of round(100 * count / total); it
  need not be equal to it (the counterexample below).
\<close>

theorem status_distribution_total:
  assumes "\<not> falsyNum (u_employerId user)" and "\<not> falsyNum (u_companyId user)"
    and "apps = employerApplications db (the (u_employerId user)) (the (u_companyId user))"
    and "length apps < 2 ^ 53"
  shows "getDashboardStats db user
           = respondWith 200 ''Dashboard statistics retrieved successfully''
               (statusDistribution (groupByStatus apps) (length apps), length apps)
    \<and> (length apps = 0 \<longrightarrow> statusDistribution (groupByStatus apps) (length apps) = [])
    \<and> (\<forall>b\<in>set (statusDistribution (groupByStatus apps) (length apps)).
          \<exists>p. b_percentage b = Num (of_int p) \<and> 0 \<le> p \<and> p \<le> 100
            \<and> \<bar>(of_int p :: rat) - 100 * of_nat (b_count b) / of_nat (length apps)\<bar>
                 \<le> 1 / 2 + 1 / 2 ^ 45
            \<and> \<bar>p - roundNearest (100 * of_nat (b_count b) / of_nat (length apps))\<bar> \<le> 1)"
proof (intro conjI impI ballI)
  show "getDashboardStats db user
           = respondWith 200 ''Dashboard statistics retrieved successfully''
               (statusDistribution (groupByStatus apps) (length apps), length apps)"
    using assms(1,2,3) by (simp add: getDashboardStats_def Let_def)
next
  assume "length apps = 0"
  then show "statusDistribution (groupByStatus apps) (length apps) = []"
    by (simp add: statusDistribution_def groupByStatus_empty)
next
  fix b assume "b \<in> set (statusDistribution (groupByStatus apps) (length apps))"
  then obtain g where g: "g \<in> set (groupByStatus apps)"
    and b: "b = \<lparr>b_status = fst g, b_count = snd g,
                  b_percentage = orZero (percentOf (snd g) (length apps))\<rparr>"
    by (auto simp: statusDistribution_def)
  from groupByStatus_counts [OF g] have cnt: "0 < snd g" "snd g \<le> length apps" by simp_all
  from percentOf_near_round [OF cnt assms(4)] obtain p where
    p: "percentOf (snd g) (length apps) = Num (of_int p)" "0 \<le> p" "p \<le> 100"
       "\<bar>(of_int p :: rat) - 100 * of_nat (snd g) / of_nat (length apps)\<bar> \<le> 1 / 2 + 1 / 2 ^ 45"
       "\<bar>p - roundNearest (100 * of_nat (snd g) / of_nat (length apps))\<bar> \<le> 1"
    by blast
  have "b_percentage b = Num (of_int p)" "b_count b = snd g" using b p(1) by simp_all
  with p(2-5)
  show "\<exists>p. b_percentage b = Num (of_int p) \<and> 0 \<le> p \<and> p \<le> 100
            \<and> \<bar>(of_int p :: rat) - 100 * of_nat (b_count b) / of_nat (length apps)\<bar>
                 \<le> 1 / 2 + 1 / 2 ^ 45
            \<and> \<bar>p - roundNearest (100 * of_nat (b_count b) / of_nat (length apps))\<bar> \<le> 1"
    by auto
qed

theorem status_distribution_total_witness:
  "payload (getDashboardStats quietStore userE) = Some ([], 0)
   \<and> payload (getDashboardStats busyStore userE)
       = Some ([\<lparr>b_status = PENDING, b_count = 23, b_percentage = Num 57\<rparr>,
                \<lparr>b_status = REVIEWING, b_count = 17, b_percentage = Num 43\<rparr>], 40)"
  using status_distribution_total [of userE _ quietStore, OF _ _ refl]
        status_distribution_total [of userE _ busyStore, OF _ _ refl]
        busy_dashboard quiet_dashboard busy_total
  by (simp add: userE_def respondWith_def)

theorem status_percentage_counterexample:
  "getDashboardStats busyStore userE
     = respondWith 200 ''Dashboard statistics retrieved successfully''
         ([\<lparr>b_status = PENDING, b_count = 23, b_percentage = Num 57\<rparr>,
           \<lparr>b_status = REVIEWING, b_count = 17, b_percentage = Num 43\<rparr>], 40)
   \<and> roundNearest (100 * 23 / 40) = 58"
  using busy_dashboard by (simp add: roundNearest_def floor_unique)

end
